theory Spec2Isabelle
  imports Complex_Main "HOL-Library.Multiset"
begin

section \<open>JavaScript values\<close>

text \<open>
  The repository is JavaScript. Its functions read properties of plain objects and
  coerce them with \<^verbatim>\<open>Number\<close>, \<^verbatim>\<open>parseFloat\<close>, \<^verbatim>\<open>||\<close> and
  \<^verbatim>\<open>toString\<close>, so the embedding keeps the dynamic values.

  A JavaScript number is a finite value, an infinity or NaN. Finite doubles are
  idealised as exact rationals: the model agrees with IEEE double arithmetic wherever
  that arithmetic is exact (integer counts whose sums stay below \<open>2^52\<close>); rounding
  errors of larger or fractional operands and the sign of zero are not tracked.
\<close>

datatype jsnum = Fin rat | PosInf | NegInf | NaN

datatype jsval = JUndefined | JNull | JBool bool | JNum jsnum | JStr string

text \<open>
  An object is its property read: \<open>post ''views''\<close> is \<^verbatim>\<open>post.views\<close>, and a
  property that is absent reads as \<^verbatim>\<open>undefined\<close>.
\<close>

type_synonym jsobj = "string \<Rightarrow> jsval"

definition emptyObj :: jsobj where
  "emptyObj = (\<lambda>_. JUndefined)"

subsection \<open>Number arithmetic\<close>

fun isNaN :: "jsnum \<Rightarrow> bool" where
  "isNaN NaN = True"
| "isNaN _ = False"

fun js_neg :: "jsnum \<Rightarrow> jsnum" where
  "js_neg (Fin q) = Fin (- q)"
| "js_neg PosInf = NegInf"
| "js_neg NegInf = PosInf"
| "js_neg NaN = NaN"

fun js_add :: "jsnum \<Rightarrow> jsnum \<Rightarrow> jsnum" where
  "js_add NaN _ = NaN"
| "js_add _ NaN = NaN"
| "js_add (Fin a) (Fin b) = Fin (a + b)"
| "js_add PosInf NegInf = NaN"
| "js_add NegInf PosInf = NaN"
| "js_add PosInf _ = PosInf"
| "js_add _ PosInf = PosInf"
| "js_add NegInf _ = NegInf"
| "js_add _ NegInf = NegInf"

definition js_sub :: "jsnum \<Rightarrow> jsnum \<Rightarrow> jsnum" where
  "js_sub a b = js_add a (js_neg b)"

text \<open>The sign of a number that is not NaN: \<open>-1\<close>, \<open>0\<close> or \<open>1\<close>.\<close>

fun js_sign :: "jsnum \<Rightarrow> int" where
  "js_sign (Fin q) = (if q < 0 then - 1 else if q = 0 then 0 else 1)"
| "js_sign PosInf = 1"
| "js_sign NegInf = - 1"
| "js_sign NaN = 0"

definition signedInf :: "int \<Rightarrow> jsnum" where
  "signedInf s = (if s < 0 then NegInf else if s = 0 then NaN else PosInf)"


text \<open>
  Division. A zero divisor is taken as \<open>+0\<close> (the sign of zero is not tracked); the
  only division of the modelled code divides by a positive array length.
\<close>

fun js_div :: "jsnum \<Rightarrow> jsnum \<Rightarrow> jsnum" where
  "js_div NaN _ = NaN"
| "js_div _ NaN = NaN"
| "js_div (Fin a) (Fin b) = (if b = 0 then signedInf (js_sign (Fin a)) else Fin (a / b))"
| "js_div (Fin a) _ = Fin 0"
| "js_div a (Fin b) = signedInf (js_sign a * (if b < 0 then - 1 else 1))"
| "js_div _ _ = NaN"

text \<open>\<^verbatim>\<open>a >= b\<close>, \<^verbatim>\<open>a > b\<close>: false as soon as one side is NaN.\<close>

fun js_ge :: "jsnum \<Rightarrow> jsnum \<Rightarrow> bool" where
  "js_ge NaN _ = False"
| "js_ge _ NaN = False"
| "js_ge (Fin a) (Fin b) = (a \<ge> b)"
| "js_ge PosInf _ = True"
| "js_ge _ NegInf = True"
| "js_ge _ _ = False"

fun js_gt :: "jsnum \<Rightarrow> jsnum \<Rightarrow> bool" where
  "js_gt NaN _ = False"
| "js_gt _ NaN = False"
| "js_gt (Fin a) (Fin b) = (a > b)"
| "js_gt PosInf PosInf = False"
| "js_gt NegInf NegInf = False"
| "js_gt PosInf _ = True"
| "js_gt _ NegInf = True"
| "js_gt _ _ = False"

text \<open>\<^verbatim>\<open>Math.round\<close>: the nearest integer, a tie going towards \<open>+\<infinity>\<close>.\<close>

fun Math_round :: "jsnum \<Rightarrow> jsnum" where
  "Math_round (Fin q) = Fin (of_int \<lfloor>q + 1 / 2\<rfloor>)"
| "Math_round x = x"

subsection \<open>Strings\<close>

text \<open>
  Strings are byte lists; the character classes below are the ASCII part of the
  ECMAScript ones (white space and line terminators, decimal digits, letters).
\<close>

definition isWhiteSpace :: "char \<Rightarrow> bool" where
  "isWhiteSpace c = (c \<in> set [CHR 0x09, CHR 0x0A, CHR 0x0B, CHR 0x0C, CHR 0x0D, CHR '' ''])"

definition trimStart :: "string \<Rightarrow> string" where
  "trimStart s = dropWhile isWhiteSpace s"

definition trimEnd :: "string \<Rightarrow> string" where
  "trimEnd s = rev (dropWhile isWhiteSpace (rev s))"

definition trim :: "string \<Rightarrow> string" where
  "trim s = trimEnd (trimStart s)"

definition lowerChar :: "char \<Rightarrow> char" where
  "lowerChar c =
     (case map_of (zip ''ABCDEFGHIJKLMNOPQRSTUVWXYZ'' ''abcdefghijklmnopqrstuvwxyz'') c of
        None \<Rightarrow> c | Some d \<Rightarrow> d)"

definition toLowerCase :: "string \<Rightarrow> string" where
  "toLowerCase s = map lowerChar s"


definition startsWith :: "string \<Rightarrow> string \<Rightarrow> bool" where
  "startsWith s pre = (take (length pre) s = pre)"


subsection \<open>Numeric literals\<close>

definition digitTable :: "(char \<times> nat) list" where
  "digitTable =
     [(CHR ''0'', 0), (CHR ''1'', 1), (CHR ''2'', 2), (CHR ''3'', 3), (CHR ''4'', 4),
      (CHR ''5'', 5), (CHR ''6'', 6), (CHR ''7'', 7), (CHR ''8'', 8), (CHR ''9'', 9),
      (CHR ''a'', 10), (CHR ''b'', 11), (CHR ''c'', 12), (CHR ''d'', 13), (CHR ''e'', 14),
      (CHR ''f'', 15)]"

text \<open>The value of a digit in a radix, \<open>None\<close> when the character is no digit of it.\<close>

definition digitVal :: "nat \<Rightarrow> char \<Rightarrow> nat option" where
  "digitVal radix c =
     (case map_of digitTable (lowerChar c) of
        None \<Rightarrow> None
      | Some d \<Rightarrow> if d < radix then Some d else None)"

definition isDigit :: "char \<Rightarrow> bool" where
  "isDigit c = (digitVal 10 c \<noteq> None)"

definition digitsVal :: "nat \<Rightarrow> string \<Rightarrow> nat" where
  "digitsVal radix ds =
     foldl (\<lambda>n c. radix * n + (case digitVal radix c of None \<Rightarrow> 0 | Some d \<Rightarrow> d)) 0 ds"

definition pow10 :: "int \<Rightarrow> rat" where
  "pow10 k = (if k \<ge> 0 then 10 ^ nat k else 1 / 10 ^ nat (- k))"

text \<open>
  \<^verbatim>\<open>ExponentPart\<close>: \<open>e\<close> or \<open>E\<close>, an optional sign, at least one digit. Without
  digits there is no exponent part and nothing is consumed.
\<close>

definition parseExponent :: "string \<Rightarrow> int \<times> string" where
  "parseExponent s =
     (case s of
        [] \<Rightarrow> (0, s)
      | c # r \<Rightarrow>
          if c = CHR ''e'' \<or> c = CHR ''E'' then
            (let neg = (r \<noteq> [] \<and> hd r = CHR ''-'');
                 r' = (if r \<noteq> [] \<and> (hd r = CHR ''-'' \<or> hd r = CHR ''+'') then tl r else r);
                 es = takeWhile isDigit r'
             in if es = [] then (0, s)
                else ((if neg then - int (digitsVal 10 es) else int (digitsVal 10 es)),
                      dropWhile isDigit r'))
          else (0, s))"

definition decimalValue :: "string \<Rightarrow> string \<Rightarrow> int \<Rightarrow> rat" where
  "decimalValue ds fs e = of_nat (digitsVal 10 (ds @ fs)) * pow10 (e - int (length fs))"

text \<open>
  The longest prefix that is a \<^verbatim>\<open>StrUnsignedDecimalLiteral\<close>
  (\<^verbatim>\<open>Infinity\<close>, \<^verbatim>\<open>digits . digits? exp?\<close>, \<^verbatim>\<open>. digits exp?\<close>,
  \<^verbatim>\<open>digits exp?\<close>), with its value and the rest of the string.
\<close>

definition parseUnsigned :: "string \<Rightarrow> (jsnum \<times> string) option" where
  "parseUnsigned s =
     (if startsWith s ''Infinity'' then Some (PosInf, drop 8 s)
      else
        let ds = takeWhile isDigit s; r1 = dropWhile isDigit s in
        if r1 \<noteq> [] \<and> hd r1 = CHR ''.'' then
          (let fs = takeWhile isDigit (tl r1); r2 = dropWhile isDigit (tl r1) in
           if ds = [] \<and> fs = [] then None
           else (case parseExponent r2 of (e, r3) \<Rightarrow> Some (Fin (decimalValue ds fs e), r3)))
        else if ds = [] then None
        else (case parseExponent r1 of (e, r3) \<Rightarrow> Some (Fin (decimalValue ds [] e), r3)))"

definition parseDecimal :: "string \<Rightarrow> (jsnum \<times> string) option" where
  "parseDecimal s =
     (if s \<noteq> [] \<and> hd s = CHR ''-'' then
        map_option (\<lambda>(v, r). (js_neg v, r)) (parseUnsigned (tl s))
      else if s \<noteq> [] \<and> hd s = CHR ''+'' then parseUnsigned (tl s)
      else parseUnsigned s)"


text \<open>\<^verbatim>\<open>0x\<close>, \<^verbatim>\<open>0o\<close> and \<^verbatim>\<open>0b\<close> literals: the radix of the prefix, if any.\<close>

definition radixPrefix :: "string \<Rightarrow> nat option" where
  "radixPrefix s =
     (if length s \<ge> 2 \<and> hd s = CHR ''0'' then
        (let c = lowerChar (s ! 1) in
         if c = CHR ''x'' then Some 16 else if c = CHR ''o'' then Some 8
         else if c = CHR ''b'' then Some 2 else None)
      else None)"

text \<open>
  \<^verbatim>\<open>StringToNumber\<close>: the whole trimmed string must be a numeric literal; the empty
  string is \<open>0\<close>.
\<close>

definition StringToNumber :: "string \<Rightarrow> jsnum" where
  "StringToNumber s =
     (let t = trim s in
      if t = [] then Fin 0
      else case radixPrefix t of
        Some radix \<Rightarrow>
          (let ds = drop 2 t in
           if ds \<noteq> [] \<and> list_all (\<lambda>c. digitVal radix c \<noteq> None) ds
           then Fin (of_nat (digitsVal radix ds)) else NaN)
      | None \<Rightarrow>
          (case parseDecimal t of
             None \<Rightarrow> NaN
           | Some (v, r) \<Rightarrow> if r = [] then v else NaN))"

text \<open>\<^verbatim>\<open>Number(value)\<close> on a primitive value.\<close>

fun Number :: "jsval \<Rightarrow> jsnum" where
  "Number JUndefined = NaN"
| "Number JNull = Fin 0"
| "Number (JBool b) = Fin (if b then 1 else 0)"
| "Number (JNum n) = n"
| "Number (JStr s) = StringToNumber s"

text \<open>Truthiness, and \<^verbatim>\<open>a || b\<close>.\<close>

fun truthy :: "jsval \<Rightarrow> bool" where
  "truthy JUndefined = False"
| "truthy JNull = False"
| "truthy (JBool b) = b"
| "truthy (JNum n) = (n \<noteq> NaN \<and> n \<noteq> Fin 0)"
| "truthy (JStr s) = (s \<noteq> [])"

definition js_or :: "jsval \<Rightarrow> jsval \<Rightarrow> jsval" where
  "js_or a b = (if truthy a then a else b)"

section \<open>utils/dataProcessor\<close>

subsection \<open>calculateAverageViews\<close>

text \<open>
  \<^verbatim>\<open>calculateAverageViews(posts)\<close>; \<open>None\<close> is the \<^verbatim>\<open>null\<close> result. The array
  argument is a list: a \<^verbatim>\<open>null\<close> or \<^verbatim>\<open>undefined\<close> argument takes the branch of
  the empty array.
\<close>

definition validViews :: "jsobj \<Rightarrow> bool" where
  "validViews post = (let views = Number (post ''views'') in \<not> isNaN views \<and> js_ge views (Fin 0))"

definition calculateAverageViews :: "jsobj list \<Rightarrow> jsnum option" where
  "calculateAverageViews posts =
     (if posts = [] then None
      else
        let validPosts = filter validViews posts in
        if validPosts = [] then None
        else
          let totalViews = foldl (\<lambda>sum post. js_add sum (Number (post ''views''))) (Fin 0) validPosts;
              average = Math_round (js_div totalViews (Fin (of_nat (length validPosts))))
          in Some average)"

subsection \<open>filterLast10Posts\<close>

text \<open>
  \<^verbatim>\<open>new Date(value)\<close>, as the time value of the date (milliseconds, NaN for an
  invalid date). A string goes through the engine's date parser, which is a parameter
  \<open>dateParse\<close> of the model; any other value is converted with \<^verbatim>\<open>Number\<close>.
  \<^verbatim>\<open>TimeClip\<close> truncates towards zero and rejects what is out of range.
\<close>

definition TimeClip :: "jsnum \<Rightarrow> jsnum" where
  "TimeClip t =
     (case t of
        Fin q \<Rightarrow> if \<bar>q\<bar> > 8640000000000000 then NaN
                 else Fin (of_int (if q \<ge> 0 then \<lfloor>q\<rfloor> else \<lceil>q\<rceil>))
      | _ \<Rightarrow> NaN)"

definition newDate :: "(string \<Rightarrow> jsnum) \<Rightarrow> jsval \<Rightarrow> jsnum" where
  "newDate dateParse v =
     (case v of JStr s \<Rightarrow> TimeClip (dateParse s) | _ \<Rightarrow> TimeClip (Number v))"

text \<open>
  \<^verbatim>\<open>Array.prototype.sort(comparefn)\<close>. The sort is stable, an element \<open>x\<close> moves
  behind \<open>y\<close> only when \<open>comparefn(x, y) > 0\<close>, and a NaN result of the comparator
  counts as \<open>0\<close>. For a comparator that is a consistent ordering every stable sort
  returns the same array, which is the one computed here by insertion. For an
  inconsistent comparator ECMAScript leaves the order to the implementation.
\<close>

fun sortInsert :: "('a \<Rightarrow> 'a \<Rightarrow> jsnum) \<Rightarrow> 'a \<Rightarrow> 'a list \<Rightarrow> 'a list" where
  "sortInsert comparefn x [] = [x]"
| "sortInsert comparefn x (y # ys) =
     (if js_gt (comparefn x y) (Fin 0) then y # sortInsert comparefn x ys else x # y # ys)"

definition js_sort :: "('a \<Rightarrow> 'a \<Rightarrow> jsnum) \<Rightarrow> 'a list \<Rightarrow> 'a list" where
  "js_sort comparefn xs = foldr (sortInsert comparefn) xs []"

text \<open>\<^verbatim>\<open>xs.slice(0, end)\<close>: a negative \<open>end\<close> counts from the end of the array.\<close>

definition slice0 :: "'a list \<Rightarrow> int \<Rightarrow> 'a list" where
  "slice0 xs end = (if end < 0 then take (nat (int (length xs) + end)) xs else take (nat end) xs)"

text \<open>The comparator of \<^verbatim>\<open>filterLast10Posts\<close>: \<^verbatim>\<open>dateB - dateA\<close>.\<close>

definition byDateDesc :: "(string \<Rightarrow> jsnum) \<Rightarrow> jsobj \<Rightarrow> jsobj \<Rightarrow> jsnum" where
  "byDateDesc dateParse a b =
     (let dateA = newDate dateParse (a ''postedDate'');
          dateB = newDate dateParse (b ''postedDate'')
      in js_sub dateB dateA)"

text \<open>
  \<^verbatim>\<open>filterLast10Posts(posts, count = 10)\<close>; \<open>cnt\<close> is the argument \<^verbatim>\<open>count\<close>,
  \<open>None\<close> when it is omitted.
\<close>

definition filterLast10Posts :: "(string \<Rightarrow> jsnum) \<Rightarrow> jsobj list \<Rightarrow> int option \<Rightarrow> jsobj list" where
  "filterLast10Posts dateParse posts cnt =
     (if posts = [] then []
      else
        let sortedPosts = js_sort (byDateDesc dateParse) posts
        in slice0 sortedPosts (case cnt of None \<Rightarrow> 10 | Some c \<Rightarrow> c))"

subsection \<open>deduplicatePosts\<close>

text \<open>
  \<^verbatim>\<open>post.postLink?.toString().trim()\<close>; \<open>None\<close> is \<^verbatim>\<open>undefined\<close>. The decimal
  rendering of a number, \<^verbatim>\<open>Number.prototype.toString\<close>, is the parameter
  \<open>numberToString\<close>.
\<close>

definition trimmedLink :: "(jsnum \<Rightarrow> string) \<Rightarrow> jsobj \<Rightarrow> string option" where
  "trimmedLink numberToString post =
     (case post ''postLink'' of
        JUndefined \<Rightarrow> None
      | JNull \<Rightarrow> None
      | JBool b \<Rightarrow> Some (trim (if b then ''true'' else ''false''))
      | JNum n \<Rightarrow> Some (trim (numberToString n))
      | JStr s \<Rightarrow> Some (trim s))"

record dedupResult =
  toAppend :: "jsobj list"
  toUpdate :: "jsobj list"

text \<open>
  The body of \<^verbatim>\<open>newPosts.forEach\<close>: the two arrays are the state, \<^verbatim>\<open>push\<close>
  appends at the end. \<open>!postLink\<close> holds for \<^verbatim>\<open>undefined\<close> and for the empty
  string.
\<close>

definition dedupStep ::
  "(jsnum \<Rightarrow> string) \<Rightarrow> string option list \<Rightarrow> dedupResult \<Rightarrow> jsobj \<Rightarrow> dedupResult" where
  "dedupStep numberToString existingPostLinks acc post =
     (case trimmedLink numberToString post of
        None \<Rightarrow> acc
      | Some postLink \<Rightarrow>
          if postLink = [] then acc
          else if Some postLink \<in> set existingPostLinks
          then acc\<lparr>toUpdate := toUpdate acc @ [post]\<rparr>
          else acc\<lparr>toAppend := toAppend acc @ [post]\<rparr>)"

definition deduplicatePosts ::
  "(jsnum \<Rightarrow> string) \<Rightarrow> jsobj list \<Rightarrow> jsobj list \<Rightarrow> dedupResult" where
  "deduplicatePosts numberToString existingPosts newPosts =
     (if newPosts = [] then \<lparr>toAppend = [], toUpdate = []\<rparr>
      else
        let existingPostLinks = map (trimmedLink numberToString) existingPosts
        in foldl (dedupStep numberToString existingPostLinks)
             \<lparr>toAppend = [], toUpdate = []\<rparr> newPosts)"

subsection \<open>normalizePost\<close>

text \<open>
  \<^verbatim>\<open>normalizePost(post, username, platform)\<close>. The object literal has exactly six
  properties. \<open>nowISO\<close> is \<^verbatim>\<open>new Date().toISOString()\<close>, the clock reading.
\<close>

definition normalizePost :: "string \<Rightarrow> jsobj \<Rightarrow> jsval \<Rightarrow> jsval \<Rightarrow> jsobj" where
  "normalizePost nowISO post username platform =
     emptyObj
       (''username'' := username,
        ''platform'' := js_or (js_or platform (post ''platform'')) (JStr []),
        ''postLink'' := js_or (js_or (post ''postLink'') (post ''url'')) (JStr []),
        ''postedDate'' := js_or (js_or (post ''postedDate'') (post ''date'')) (JStr nowISO),
        ''comments'' :=
           JNum (if post ''comments'' \<noteq> JUndefined then Number (post ''comments'')
                 else if post ''share'' \<noteq> JUndefined then Number (post ''share'')
                 else Fin 0),
        ''likes'' := JNum (if post ''likes'' \<noteq> JUndefined then Number (post ''likes'') else Fin 0))"

section \<open>jobs/scrapingJob\<close>

text \<open>
  A thrown JavaScript error is a record of the properties the code reads from it:
  \<^verbatim>\<open>message\<close>, \<^verbatim>\<open>code\<close> and, for an HTTP error of axios,
  \<^verbatim>\<open>response.status\<close>, \<^verbatim>\<open>response.data.message\<close>,
  \<^verbatim>\<open>response.data.error.code\<close> and \<^verbatim>\<open>response.data.error.message\<close>
  (\<^verbatim>\<open>undefined\<close> when absent). A function that may throw returns
  \<open>exn + 'a\<close>, with \<open>Inl\<close> for the throw. Calls to the logger are
  left out of the model except in the strategies below, where a claim is about them.
\<close>

record exn =
  message :: string
  code :: jsval
  responseStatus :: jsval
  responseMessage :: jsval
  apiErrorCode :: jsval
  apiErrorMessage :: jsval

text \<open>\<^verbatim>\<open>new Error(msg)\<close>: only the message is set.\<close>

definition Error :: "string \<Rightarrow> exn" where
  "Error msg =
     \<lparr>message = msg, code = JUndefined, responseStatus = JUndefined,
      responseMessage = JUndefined, apiErrorCode = JUndefined, apiErrorMessage = JUndefined\<rparr>"

datatype scraper = TikTokScraper | InstagramScraper

text \<open>
  The message of the TypeError that V8 raises for a method call on a value without
  that method; only \<^verbatim>\<open>platform.toLowerCase()\<close> can raise it here.
\<close>

definition toLowerCaseTypeError :: "jsval \<Rightarrow> exn" where
  "toLowerCaseTypeError v =
     (case v of
        JUndefined \<Rightarrow> Error ''Cannot read properties of undefined (reading 'toLowerCase')''
      | JNull \<Rightarrow> Error ''Cannot read properties of null (reading 'toLowerCase')''
      | _ \<Rightarrow> Error ''platform.toLowerCase is not a function'')"

definition getScraperForPlatform :: "jsval \<Rightarrow> exn + scraper" where
  "getScraperForPlatform platform =
     (case platform of
        JStr p \<Rightarrow>
          (let normalizedPlatform = trim (toLowerCase p) in
           if normalizedPlatform = ''tiktok'' \<or> normalizedPlatform = ''tik tok''
           then Inr TikTokScraper
           else if normalizedPlatform = ''instagram'' \<or> normalizedPlatform = ''ig''
           then Inr InstagramScraper
           else Inl (Error (''Unsupported platform: '' @ p)))
      | _ \<Rightarrow> Inl (toLowerCaseTypeError platform))"

text \<open>
  The result object of \<^verbatim>\<open>processInfluencer\<close>. A failure result has no
  \<^verbatim>\<open>averageViews\<close>, \<^verbatim>\<open>toAppend\<close> and \<^verbatim>\<open>toUpdate\<close>; they are \<open>None\<close> and
  \<open>[]\<close> here, which is how \<^verbatim>\<open>run\<close> reads them (\<^verbatim>\<open>r.toAppend || []\<close>). For
  \<open>r_averageViews\<close> of a success, \<open>None\<close> is \<^verbatim>\<open>null\<close>.
\<close>

record procResult =
  r_username :: jsval
  r_platform :: jsval
  r_success :: bool
  r_error :: "string option"
  r_postsCount :: nat
  r_averageViews :: "jsnum option"
  r_toAppend :: "jsobj list"
  r_toUpdate :: "jsobj list"

definition failureResult :: "jsval \<Rightarrow> jsval \<Rightarrow> string \<Rightarrow> procResult" where
  "failureResult username platform msg =
     \<lparr>r_username = username, r_platform = platform, r_success = False, r_error = Some msg,
      r_postsCount = 0, r_averageViews = None, r_toAppend = [], r_toUpdate = []\<rparr>"

text \<open>
  What the job reads from outside: the engine's date parser and number printer, the
  clock, and \<open>getRecentPosts sc username\<close>, the outcome of
  \<^verbatim>\<open>scraper.getRecentPosts(username, config.scraping.postsToFetch)\<close>.
\<close>

record world =
  dateParse :: "string \<Rightarrow> jsnum"
  numberToString :: "jsnum \<Rightarrow> string"
  nowISO :: string
  getRecentPosts :: "scraper \<Rightarrow> jsval \<Rightarrow> exn + jsobj list"

text \<open>\<^verbatim>\<open>p.username === username\<close>: strict equality, under which NaN differs from itself.\<close>

definition strictEq :: "jsval \<Rightarrow> jsval \<Rightarrow> bool" where
  "strictEq a b = (a = b \<and> a \<noteq> JNum NaN)"

text \<open>
  \<^verbatim>\<open>processInfluencer(influencer, existingPosts)\<close>. Everything after the
  destructuring of \<open>influencer\<close> is inside \<^verbatim>\<open>try\<close>: both throwing calls end in the
  \<^verbatim>\<open>catch\<close> branch, which returns a failure result with the error's message.
\<close>

definition processInfluencer :: "world \<Rightarrow> jsobj \<Rightarrow> jsobj list \<Rightarrow> procResult" where
  "processInfluencer w influencer existingPosts =
     (let username = influencer ''username''; platform = influencer ''platform'' in
      case getScraperForPlatform platform of
        Inl e \<Rightarrow> failureResult username platform (message e)
      | Inr sc \<Rightarrow>
          (case getRecentPosts w sc username of
             Inl e \<Rightarrow> failureResult username platform (message e)
           | Inr posts \<Rightarrow>
               if posts = [] then failureResult username platform ''No posts found''
               else
                 let normalizedPosts = map (\<lambda>post. normalizePost (nowISO w) post username platform) posts;
                     recentPosts = filterLast10Posts (dateParse w) normalizedPosts (Some 10);
                     averageViews = calculateAverageViews recentPosts;
                     userExistingPosts = filter (\<lambda>p. strictEq (p ''username'') username) existingPosts;
                     d = deduplicatePosts (numberToString w) userExistingPosts normalizedPosts
                 in \<lparr>r_username = username, r_platform = platform, r_success = True,
                     r_error = None, r_postsCount = length posts, r_averageViews = averageViews,
                     r_toAppend = toAppend d, r_toUpdate = toUpdate d\<rparr>))"

text \<open>
  The storage collaborator: what the reader returns and whether each call of the
  writer throws (\<open>None\<close>: it returns normally).
\<close>

record storage =
  readInfluencers :: "exn + jsobj list"
  readExistingPosts :: "exn + jsobj list"
  updateAverageViews :: "(jsval \<times> jsval \<times> jsnum option) list \<Rightarrow> exn option"
  appendPosts :: "jsobj list \<Rightarrow> exn option"
  updateExistingPosts :: "jsobj list \<Rightarrow> exn option"

record summary =
  totalInfluencers :: nat
  successCount :: nat
  failureCount :: nat
  totalPosts :: nat
  newPosts :: nat
  updatedPosts :: nat
  errors :: "(jsval \<times> jsval \<times> string option) list"

text \<open>A writer call that is made only for a non-empty argument.\<close>

definition whenNonEmpty :: "('a list \<Rightarrow> exn option) \<Rightarrow> 'a list \<Rightarrow> exn option" where
  "whenNonEmpty call xs = (if xs = [] then None else call xs)"

text \<open>
  \<^verbatim>\<open>run()\<close>. \<^verbatim>\<open>Promise.all\<close> over the limited calls returns the results in the
  order of the influencers; no call of \<^verbatim>\<open>processInfluencer\<close> rejects, so the
  results are the map. The summary's \<^verbatim>\<open>duration\<close>, a formatted clock difference,
  is not part of the record. An error of the reader or of the writer is rethrown.
\<close>

definition run :: "world \<Rightarrow> storage \<Rightarrow> exn + summary" where
  "run w st =
     (case readInfluencers st of
        Inl e \<Rightarrow> Inl e
      | Inr influencers \<Rightarrow>
     (case readExistingPosts st of
        Inl e \<Rightarrow> Inl e
      | Inr existingPosts \<Rightarrow>
     if influencers = [] then Inl (Error ''No influencers found in data file'')
     else
       let results = map (\<lambda>influencer. processInfluencer w influencer existingPosts) influencers;
           successfulResults = filter r_success results;
           failedResults = filter (\<lambda>r. \<not> r_success r) results;
           averageViewsUpdates =
             map (\<lambda>r. (r_username r, r_platform r, r_averageViews r)) successfulResults;
           allPostsToAppend = concat (map r_toAppend successfulResults);
           allPostsToUpdate = concat (map r_toUpdate successfulResults)
       in
       (case whenNonEmpty (updateAverageViews st) averageViewsUpdates of
          Some e \<Rightarrow> Inl e
        | None \<Rightarrow>
       (case whenNonEmpty (appendPosts st) allPostsToAppend of
          Some e \<Rightarrow> Inl e
        | None \<Rightarrow>
       (case whenNonEmpty (updateExistingPosts st) allPostsToUpdate of
          Some e \<Rightarrow> Inl e
        | None \<Rightarrow>
            Inr \<lparr>totalInfluencers = length influencers,
                 successCount = length successfulResults,
                 failureCount = length failedResults,
                 totalPosts = foldl (\<lambda>sum r. sum + r_postsCount r) 0 successfulResults,
                 newPosts = length allPostsToAppend,
                 updatedPosts = length allPostsToUpdate,
                 errors = map (\<lambda>r. (r_username r, r_platform r, r_error r)) failedResults\<rparr>)))))"

section \<open>services/scrapers/strategies\<close>

subsection \<open>extractNumber\<close>


subsection \<open>Request retry\<close>

text \<open>
  The outcome of the HTTP call made at attempt \<open>n\<close> is \<open>axios n\<close>. A request returns
  the delays it has slept, in milliseconds and in order, with its result; the number
  of calls made is one more than the number of delays.
\<close>

text \<open>\<^verbatim>\<open>Math.pow(2, attempt - 1) * 1000\<close>\<close>

definition backoffDelay :: "nat \<Rightarrow> nat" where
  "backoffDelay attempt = (if attempt = 0 then 500 else 2 ^ (attempt - 1) * 1000)"

text \<open>
  \<^verbatim>\<open>RapidApiStrategy.makeRequest(options, attempt = 1)\<close>; \<open>retryAttempts\<close> is
  \<^verbatim>\<open>config.scraping.retryAttempts\<close>.
\<close>

function RapidApi_makeRequest :: "nat \<Rightarrow> (nat \<Rightarrow> exn + 'r) \<Rightarrow> nat \<Rightarrow> nat list \<times> (exn + 'r)" where
  "RapidApi_makeRequest retryAttempts axios attempt =
     (case axios attempt of
        Inr response \<Rightarrow> ([], Inr response)
      | Inl error \<Rightarrow>
          if attempt \<ge> retryAttempts then ([], Inl error)
          else
            (case RapidApi_makeRequest retryAttempts axios (attempt + 1) of
               (delays, r) \<Rightarrow> (backoffDelay attempt # delays, r)))"
  by pat_completeness auto
termination
  by (relation "measure (\<lambda>(retryAttempts, axios, attempt). retryAttempts - attempt)") auto

declare RapidApi_makeRequest.simps [simp del]

text \<open>
  \<^verbatim>\<open>MetaApiStrategy.makeRequest\<close> and \<^verbatim>\<open>handleError\<close>, which call each other.
  The constructor sets \<^verbatim>\<open>maxRetries = 3\<close> and \<^verbatim>\<open>baseDelay = 1000\<close>.
\<close>

definition maxRetries :: nat where
  "maxRetries = 3"

definition baseDelay :: nat where
  "baseDelay = 1000"

text \<open>\<^verbatim>\<open>errorResponse?.message || error.message\<close>, for a message that is a string.\<close>

definition metaErrorMessage :: "exn \<Rightarrow> string" where
  "metaErrorMessage error =
     (case apiErrorMessage error of JStr m \<Rightarrow> if m \<noteq> [] then m else message error
      | _ \<Rightarrow> message error)"

text \<open>The decimal digits of an attempt number, as a template literal prints it.\<close>

function natToString :: "nat \<Rightarrow> string" where
  "natToString n =
     (if n < 10 then [''0123456789'' ! n]
      else natToString (n div 10) @ [''0123456789'' ! (n mod 10)])"
  by pat_completeness auto
termination
  by (relation "measure (\<lambda>n. n)") auto

declare natToString.simps [simp del]

text \<open>\<^verbatim>\<open>this.baseDelay * Math.pow(2, attempt - 1)\<close>\<close>

definition metaDelay :: "nat \<Rightarrow> nat" where
  "metaDelay attempt = (if attempt = 0 then baseDelay div 2 else baseDelay * 2 ^ (attempt - 1))"

function Meta_makeRequest :: "string \<Rightarrow> (nat \<Rightarrow> exn + 'r) \<Rightarrow> nat \<Rightarrow> nat list \<times> (exn + 'r)"
  and Meta_handleError :: "string \<Rightarrow> (nat \<Rightarrow> exn + 'r) \<Rightarrow> exn \<Rightarrow> nat \<Rightarrow> nat list \<times> (exn + 'r)"
  where
  "Meta_makeRequest platformName axios attempt =
     (case axios attempt of
        Inr response \<Rightarrow> ([], Inr response)
      | Inl error \<Rightarrow> Meta_handleError platformName axios error attempt)"
| "Meta_handleError platformName axios error attempt =
     (let errorCode = apiErrorCode error;
          errorMessage = metaErrorMessage error;
          isRateLimited = (strictEq errorCode (JNum (Fin 4)) \<or> strictEq errorCode (JNum (Fin 17)));
          isTokenExpired = strictEq errorCode (JNum (Fin 190));
          isInvalidParam = strictEq errorCode (JNum (Fin 100));
          isPermissionError = strictEq errorCode (JNum (Fin 10))
      in
      if isTokenExpired then
        ([], Inl (Error (platformName @ '' Meta API: Access token has expired. ''
                         @ ''Please generate a new long-lived access token.'')))
      else if isInvalidParam then
        ([], Inl (Error (platformName @ '' Meta API: Invalid parameter. '' @ ''Message: '' @ errorMessage)))
      else if isPermissionError then
        ([], Inl (Error (platformName @ '' Meta API: Permission error. ''
                         @ ''Please ensure your app has the required permissions and capabilities. ''
                         @ ''Message: '' @ errorMessage)))
      else if attempt < maxRetries \<and> (isRateLimited \<or> strictEq (code error) (JStr ''ECONNABORTED'')) then
        (case Meta_makeRequest platformName axios (attempt + 1) of
           (delays, r) \<Rightarrow> (metaDelay attempt # delays, r))
      else
        ([], Inl (Error (platformName @ '' Meta API request failed after '' @ natToString attempt
                         @ '' attempts. '' @ ''Error: '' @ errorMessage))))"
  by pat_completeness auto
termination
  by (relation "measure (\<lambda>x. case x of
          Inl (platformName, axios, attempt) \<Rightarrow> 2 * (maxRetries - attempt) + 1
        | Inr (platformName, axios, error, attempt) \<Rightarrow> 2 * (maxRetries - attempt))") auto

declare Meta_makeRequest.simps [simp del] Meta_handleError.simps [simp del]

subsection \<open>Error classification\<close>

text \<open>
  In the strategies the calls \<^verbatim>\<open>logger.error\<close> and \<^verbatim>\<open>logger.warn\<close> are part of
  the result: a function returns the entries that its own body and the
  \<^verbatim>\<open>handleError\<close> it calls have logged, in order, with its value. (What the request
  and browser steps log, \<^verbatim>\<open>logger.info\<close> and \<^verbatim>\<open>logger.debug\<close> are left out.)
  The username is a string, as the strategies document it.
\<close>

datatype logEntry = LogError string | LogWarn string

record errorInfo =
  ei_error :: string
  ei_message :: string

text \<open>\<^verbatim>\<open>s.includes(sub)\<close>\<close>

fun str_includes :: "string \<Rightarrow> string \<Rightarrow> bool" where
  "str_includes [] sub = (sub = [])"
| "str_includes (c # cs) sub = (startsWith (c # cs) sub \<or> str_includes cs sub)"

text \<open>\<^verbatim>\<open>error.response?.data?.message || error.message\<close>, for a message that is a string.\<close>

definition responseOrMessage :: "exn \<Rightarrow> string" where
  "responseOrMessage error =
     (case responseMessage error of JStr m \<Rightarrow> if m \<noteq> [] then m else message error
      | _ \<Rightarrow> message error)"

text \<open>A string between double quotes, as the log templates print a username.\<close>

definition quoted :: "string \<Rightarrow> string" where
  "quoted s = [CHR 0x22] @ s @ [CHR 0x22]"

text \<open>\<^verbatim>\<open>ScrapingStrategy.handleError(error, username)\<close>\<close>

definition ScrapingStrategy_handleError :: "string \<Rightarrow> exn \<Rightarrow> string \<Rightarrow> logEntry \<times> errorInfo" where
  "ScrapingStrategy_handleError platformName error username =
     (let statusCode = responseStatus error;
          errorMessage = responseOrMessage error
      in
      if strictEq statusCode (JNum (Fin 404)) then
        (LogError (platformName @ '': User '' @ quoted username @ '' not found''),
         \<lparr>ei_error = ''user_not_found'', ei_message = ''User not found''\<rparr>)
      else if strictEq statusCode (JNum (Fin 403)) then
        (LogError (platformName @ '': User '' @ quoted username @ '' has private account''),
         \<lparr>ei_error = ''private_account'', ei_message = ''Private account''\<rparr>)
      else if strictEq statusCode (JNum (Fin 429)) then
        (LogError (platformName @ '': Rate limit exceeded''),
         \<lparr>ei_error = ''rate_limit'', ei_message = ''Rate limit exceeded''\<rparr>)
      else
        (LogError (platformName @ '': Error for user '' @ quoted username @ '': '' @ errorMessage),
         \<lparr>ei_error = ''unknown'', ei_message = errorMessage\<rparr>))"

text \<open>\<^verbatim>\<open>WebScraperStrategy.handleError(error, username)\<close>\<close>

definition WebScraperStrategy_handleError :: "string \<Rightarrow> exn \<Rightarrow> string \<Rightarrow> logEntry \<times> errorInfo" where
  "WebScraperStrategy_handleError platformName error username =
     (if str_includes (message error) ''timeout'' \<or> str_includes (message error) ''Navigation timeout'' then
        (LogError (platformName @ '': Navigation timeout for user '' @ quoted username),
         \<lparr>ei_error = ''timeout'', ei_message = ''Navigation timeout''\<rparr>)
      else if str_includes (message error) ''net::ERR_PROXY'' then
        (LogError (platformName @ '': Proxy connection failed''),
         \<lparr>ei_error = ''proxy_error'', ei_message = ''Proxy connection failed''\<rparr>)
      else if str_includes (message error) ''ERR_NAME_NOT_RESOLVED'' then
        (LogError (platformName @ '': Domain not resolved (possible network issue)''),
         \<lparr>ei_error = ''network_error'', ei_message = ''Network error''\<rparr>)
      else ScrapingStrategy_handleError platformName error username)"

subsection \<open>getRecentPosts of the strategies\<close>

text \<open>\<^verbatim>\<open>username.replace('@', '')\<close>: the first \<open>@\<close> is removed.\<close>

definition cleanUsername :: "string \<Rightarrow> string" where
  "cleanUsername username = remove1 (CHR ''@'') username"

text \<open>
  \<^verbatim>\<open>TikTokWebStrategy.getRecentPosts(username, count)\<close>. The browser is the record of
  what its steps do in this run: whether \<^verbatim>\<open>this.page\<close> is already set,
  whether \<^verbatim>\<open>initialize\<close> and \<^verbatim>\<open>navigateTo\<close> throw, and what \<^verbatim>\<open>waitForPosts\<close>
  and \<^verbatim>\<open>extractPosts\<close> return. (\<^verbatim>\<open>waitForPageLoad\<close>, \<^verbatim>\<open>waitForPosts\<close>,
  \<^verbatim>\<open>extractPosts\<close> and \<^verbatim>\<open>cleanup\<close> catch every error themselves.)
\<close>

record browserRun =
  b_page :: bool
  b_initialize :: "exn option"
  b_navigateTo :: "exn option"
  b_waitForPosts :: bool
  b_extractPosts :: "jsobj list"

definition TikTok_catch :: "exn \<Rightarrow> string \<Rightarrow> logEntry list \<times> (exn + jsobj list)" where
  "TikTok_catch error username =
     (case WebScraperStrategy_handleError ''TikTok'' error username of
        (entry, errorInfo) \<Rightarrow>
          ([entry,
            LogError (''[Web Scraping] Failed to fetch TikTok posts for '' @ username @ '': ''
                      @ ei_message errorInfo)],
           Inr []))"

definition TikTokWebStrategy_getRecentPosts ::
  "browserRun \<Rightarrow> string \<Rightarrow> logEntry list \<times> (exn + jsobj list)" where
  "TikTokWebStrategy_getRecentPosts b username =
     (case (if b_page b then None else b_initialize b) of
        Some error \<Rightarrow> TikTok_catch error username
      | None \<Rightarrow>
          (case b_navigateTo b of
             Some error \<Rightarrow> TikTok_catch error username
           | None \<Rightarrow>
               if \<not> b_waitForPosts b then
                 ([LogWarn (''Could not find posts for '' @ cleanUsername username
                     @ '', user may not exist, have no posts, or page structure changed'')],
                  Inr [])
               else ([], Inr (b_extractPosts b))))"

text \<open>
  \<^verbatim>\<open>InstagramRapidApiStrategy.getRecentPosts(username, count)\<close>.
  \<^verbatim>\<open>transformResponse\<close>, which catches its own errors, is a parameter.
\<close>

definition InstagramRapidApiStrategy_getRecentPosts ::
  "nat \<Rightarrow> (nat \<Rightarrow> exn + 'r) \<Rightarrow> ('r \<Rightarrow> string \<Rightarrow> jsobj list) \<Rightarrow> string
     \<Rightarrow> logEntry list \<times> (exn + jsobj list)" where
  "InstagramRapidApiStrategy_getRecentPosts retryAttempts axios transformResponse username =
     (case snd (RapidApi_makeRequest retryAttempts axios 1) of
        Inr response \<Rightarrow> ([], Inr (transformResponse response (cleanUsername username)))
      | Inl error \<Rightarrow>
          (case ScrapingStrategy_handleError ''Instagram'' error username of
             (entry, errorInfo) \<Rightarrow>
               ([entry,
                 LogError (''[RapidAPI] Failed to fetch Instagram posts for '' @ username @ '': ''
                           @ ei_message errorInfo)],
                Inr [])))"

text \<open>
  \<^verbatim>\<open>InstagramMetaStrategy.transformPost(media)\<close>. The insights it fetches first are
  not used in the post, and \<^verbatim>\<open>fetchMediaInsights\<close> catches every error.
\<close>

definition Meta_transformPost :: "jsobj \<Rightarrow> jsobj" where
  "Meta_transformPost media =
     emptyObj
       (''postLink'' := js_or (media ''permalink'') (JStr []),
        ''postedDate'' := js_or (media ''timestamp'') (JStr []),
        ''comments'' := js_or (media ''comments_count'') (JNum (Fin 0)),
        ''likes'' := js_or (media ''like_count'') (JNum (Fin 0)))"

text \<open>
  \<^verbatim>\<open>InstagramMetaStrategy.getRecentPosts(username, count)\<close>. The response of the
  media request is its \<^verbatim>\<open>data\<close> array, \<open>None\<close> when it has none. The
  \<^verbatim>\<open>catch\<close> logs and throws the error again.
\<close>

definition InstagramMetaStrategy_getRecentPosts ::
  "(nat \<Rightarrow> exn + jsobj list option) \<Rightarrow> string \<Rightarrow> logEntry list \<times> (exn + jsobj list)" where
  "InstagramMetaStrategy_getRecentPosts axios username =
     (case snd (Meta_makeRequest ''Instagram'' axios 1) of
        Inl error \<Rightarrow> ([LogError (''Instagram Meta API scraping failed: '' @ message error)], Inl error)
      | Inr mediaData \<Rightarrow>
          (case mediaData of
             None \<Rightarrow> ([LogWarn ''No Instagram media found for user''], Inr [])
           | Some media \<Rightarrow>
               if media = [] then ([LogWarn ''No Instagram media found for user''], Inr [])
               else ([], Inr (map Meta_transformPost media))))"

subsection \<open>BaseScraper.getRecentPosts\<close>

text \<open>
  \<^verbatim>\<open>BaseScraper.getRecentPosts(username, count)\<close>. The strategy is \<open>None\<close> when
  none is configured; otherwise it is what its \<^verbatim>\<open>initialize\<close> and its
  \<^verbatim>\<open>getRecentPosts\<close> do in this run (\<open>Inr None\<close>: it returns no array, which
  \<^verbatim>\<open>posts || []\<close> turns into the empty one).
\<close>

record strategyRun =
  s_initialize :: "exn option"
  s_getRecentPosts :: "exn + jsobj list option"

definition BaseScraper_getRecentPosts ::
  "string \<Rightarrow> strategyRun option \<Rightarrow> string \<Rightarrow> logEntry list \<times> (exn + jsobj list)" where
  "BaseScraper_getRecentPosts platformName strategy username =
     (case strategy of
        None \<Rightarrow> ([], Inl (Error ''No scraping strategy configured''))
      | Some s \<Rightarrow>
          (case s_initialize s of
             Some error \<Rightarrow>
               ([LogError (platformName @ '': Error getting posts for '' @ username @ '': ''
                           @ message error)], Inr [])
           | None \<Rightarrow>
               (case s_getRecentPosts s of
                  Inl error \<Rightarrow>
                    ([LogError (platformName @ '': Error getting posts for '' @ username @ '': ''
                                @ message error)], Inr [])
                | Inr posts \<Rightarrow> ([], Inr (case posts of None \<Rightarrow> [] | Some ps \<Rightarrow> ps)))))"

section \<open>Notions and sample inputs of the statements\<close>








text \<open>
  What \<^verbatim>\<open>Date.parse\<close> returns on three ISO strings, for the examples; every
  engine rejects the other string they use, \<^verbatim>\<open>not a date\<close>.
\<close>

definition isoSample :: "string \<Rightarrow> jsnum" where
  "isoSample s =
     (if s = ''2024-01-03T00:00:00.000Z'' then Fin 1704240000000
      else if s = ''2024-01-02T00:00:00.000Z'' then Fin 1704153600000
      else if s = ''2024-01-01T00:00:00.000Z'' then Fin 1704067200000
      else NaN)"


definition linkedPost :: "string \<Rightarrow> rat \<Rightarrow> jsobj" where
  "linkedPost l v = emptyObj(''postLink'' := JStr l, ''views'' := JNum (Fin v))"

text \<open>
  A number printer for the examples. Their links are all strings, so it is never
  called.
\<close>

definition noNumberLinks :: "jsnum \<Rightarrow> string" where
  "noNumberLinks n = []"

text \<open>An influencer, as the reader returns it.\<close>

definition identity :: "string \<Rightarrow> string \<Rightarrow> jsobj" where
  "identity u p = emptyObj(''username'' := JStr u, ''platform'' := JStr p)"

text \<open>
  A run for the examples: the scraper throws \<open>boom\<close> for \<open>alice\<close> and returns one
  post, which has \<^verbatim>\<open>views: 500\<close>, for everybody else; the storage holds \<open>alice\<close> and
  \<open>bob\<close>, no post, and accepts every write.
\<close>

definition sampleWorld :: world where
  "sampleWorld =
     \<lparr>dateParse = isoSample, numberToString = noNumberLinks,
      nowISO = ''2024-01-03T00:00:00.000Z'',
      getRecentPosts = (\<lambda>sc username.
         if username = JStr ''alice'' then Inl (Error ''boom'')
         else Inr [linkedPost ''B'' 500])\<rparr>"

definition sampleStorage :: storage where
  "sampleStorage =
     \<lparr>readInfluencers = Inr [identity ''alice'' ''tiktok'', identity ''bob'' ''tiktok''],
      readExistingPosts = Inr [],
      updateAverageViews = (\<lambda>u. None),
      appendPosts = (\<lambda>ps. None),
      updateExistingPosts = (\<lambda>ps. None)\<rparr>"

text \<open>
  The two classes of \<^verbatim>\<open>MetaApiStrategy.handleError\<close>: the codes it throws at once
  (token expired, invalid parameter, permission) and the errors it retries (rate
  limit, timeout).
\<close>

definition metaFatal :: "exn \<Rightarrow> bool" where
  "metaFatal error =
     (strictEq (apiErrorCode error) (JNum (Fin 190)) \<or> strictEq (apiErrorCode error) (JNum (Fin 100))
      \<or> strictEq (apiErrorCode error) (JNum (Fin 10)))"

definition metaTransient :: "exn \<Rightarrow> bool" where
  "metaTransient error =
     (strictEq (apiErrorCode error) (JNum (Fin 4)) \<or> strictEq (apiErrorCode error) (JNum (Fin 17))
      \<or> strictEq (code error) (JStr ''ECONNABORTED''))"

text \<open>
  An axios error with an HTTP status, and one whose response body is a Meta error
  with a code and a message.
\<close>

definition httpError :: "rat \<Rightarrow> string \<Rightarrow> exn" where
  "httpError status msg = (Error msg)\<lparr>responseStatus := JNum (Fin status)\<rparr>"

definition metaError :: "rat \<Rightarrow> string \<Rightarrow> exn" where
  "metaError c msg =
     (Error ''Request failed'')\<lparr>apiErrorCode := JNum (Fin c), apiErrorMessage := JStr msg\<rparr>"

text \<open>
  Two servers: one fails every call with the same error, the other fails the calls
  before the \<open>n\<close>-th and then answers.
\<close>

definition failing :: "exn \<Rightarrow> nat \<Rightarrow> exn + 'r" where
  "failing e k = Inl e"

definition succeedsAt :: "nat \<Rightarrow> exn \<Rightarrow> 'r \<Rightarrow> nat \<Rightarrow> exn + 'r" where
  "succeedsAt n e r k = (if k < n then Inl e else Inr r)"

text \<open>
  The error of the first step of \<^verbatim>\<open>TikTokWebStrategy.getRecentPosts\<close> that throws,
  if one does: \<^verbatim>\<open>initialize\<close>, called when there is no page yet, then
  \<^verbatim>\<open>navigateTo\<close>.
\<close>

definition throwingStep :: "browserRun \<Rightarrow> exn option" where
  "throwingStep b =
     (case (if b_page b then None else b_initialize b) of
        Some e \<Rightarrow> Some e
      | None \<Rightarrow> b_navigateTo b)"

text \<open>
  A strategy whose \<^verbatim>\<open>initialize\<close> returns and whose \<^verbatim>\<open>getRecentPosts\<close> has the
  given outcome, as \<^verbatim>\<open>BaseScraper\<close> sees it.
\<close>

definition strategyOutcome :: "logEntry list \<times> (exn + jsobj list) \<Rightarrow> strategyRun" where
  "strategyOutcome out =
     \<lparr>s_initialize = None,
      s_getRecentPosts = (case snd out of Inl e \<Rightarrow> Inl e | Inr ps \<Rightarrow> Inr (Some ps))\<rparr>"

text \<open>A browser whose navigation is answered with the status 429.\<close>

definition blockedBrowser :: browserRun where
  "blockedBrowser =
     \<lparr>b_page = False, b_initialize = None,
      b_navigateTo = Some (httpError 429 ''Too many requests''),
      b_waitForPosts = False, b_extractPosts = []\<rparr>"


section \<open>calculateAverageViews\<close>





lemma calculateAverageViews_None_iff:
  "calculateAverageViews posts = None \<longleftrightarrow> (\<forall>post\<in>set posts. \<not> validViews post)"
  by (auto simp: calculateAverageViews_def Let_def filter_empty_conv)








section \<open>deduplicatePosts\<close>








section \<open>One record for each link\<close>





section \<open>filterLast10Posts\<close>





lemma slice0_take: "\<exists>k. slice0 xs n = take k xs"
  by (auto simp: slice0_def)

lemma set_sortInsert: "set (sortInsert c x ys) = insert x (set ys)"
  by (induction ys) auto

lemma set_js_sort: "set (js_sort c xs) = set xs"
  by (induction xs) (auto simp: js_sort_def set_sortInsert)

lemma filterLast10Posts_subset: "set (filterLast10Posts dp posts cnt) \<subseteq> set posts"
proof -
  obtain k where "slice0 (js_sort (byDateDesc dp) posts) (case cnt of None \<Rightarrow> 10 | Some c \<Rightarrow> c)
      = take k (js_sort (byDateDesc dp) posts)"
    using slice0_take by blast
  then show ?thesis
    using set_take_subset[of k "js_sort (byDateDesc dp) posts"]
    by (auto simp: filterLast10Posts_def Let_def set_js_sort)
qed






section \<open>processInfluencer\<close>

lemma normalizePost_no_views: "normalizePost now post username platform ''views'' = JUndefined"
  by (simp add: normalizePost_def emptyObj_def)

lemma normalizePost_invalid: "\<not> validViews (normalizePost now post username platform)"
  by (simp add: validViews_def normalizePost_no_views)

lemma average_of_normalized:
  "calculateAverageViews
     (filterLast10Posts dp (map (\<lambda>post. normalizePost now post username platform) posts) cnt) = None"
proof -
  have "\<forall>p\<in>set (filterLast10Posts dp (map (\<lambda>post. normalizePost now post username platform) posts) cnt).
          \<not> validViews p"
    using filterLast10Posts_subset[of dp "map (\<lambda>post. normalizePost now post username platform) posts" cnt]
    by (auto simp: normalizePost_invalid)
  then show ?thesis by (simp add: calculateAverageViews_None_iff)
qed

text \<open>
  C4. For every influencer with a supported platform and every non-empty list of
  fetched posts, \<^verbatim>\<open>processInfluencer\<close> returns a success whose
  \<^verbatim>\<open>averageViews\<close> is \<^verbatim>\<open>null\<close>: the object that \<^verbatim>\<open>normalizePost\<close> builds
  has no \<^verbatim>\<open>views\<close> property, so \<^verbatim>\<open>calculateAverageViews\<close> finds no valid entry
  in the normalized posts that the recency selection keeps.
\<close>

theorem processInfluencer_average_null:
  assumes "getScraperForPlatform (influencer ''platform'') = Inr sc"
      and "getRecentPosts w sc (influencer ''username'') = Inr posts"
      and "posts \<noteq> []"
  shows "r_success (processInfluencer w influencer existingPosts)
       \<and> r_postsCount (processInfluencer w influencer existingPosts) = length posts
       \<and> r_averageViews (processInfluencer w influencer existingPosts) = None
       \<and> calculateAverageViews
            (filterLast10Posts (dateParse w)
               (map (\<lambda>post. normalizePost (nowISO w) post (influencer ''username'') (influencer ''platform'')) posts)
               (Some 10)) = None
       \<and> (\<forall>post. normalizePost (nowISO w) post (influencer ''username'') (influencer ''platform'') ''views''
             = JUndefined)"
  using assms
  by (simp add: processInfluencer_def Let_def average_of_normalized normalizePost_no_views)

lemma scraper_samples:
  "getScraperForPlatform (JStr ''tiktok'') = Inr TikTokScraper"
  "getScraperForPlatform (JStr ''Instagram '') = Inr InstagramScraper"
  by code_simp+

text \<open>
  C4 on one influencer whose only fetched post has \<^verbatim>\<open>views: 500\<close>: the result is a
  success for one post, with the average \<^verbatim>\<open>null\<close>.
\<close>

theorem processInfluencer_average_null_witness:
  "r_success (processInfluencer sampleWorld (identity ''bob'' ''tiktok'') [])
   \<and> r_postsCount (processInfluencer sampleWorld (identity ''bob'' ''tiktok'') []) = 1
   \<and> r_averageViews (processInfluencer sampleWorld (identity ''bob'' ''tiktok'') []) = None"
  using processInfluencer_average_null[of "identity ''bob'' ''tiktok''" TikTokScraper sampleWorld
     "[linkedPost ''B'' 500]" "[]"]
  by (simp add: identity_def emptyObj_def scraper_samples sampleWorld_def)

section \<open>run\<close>

lemma processInfluencer_fetch_throws:
  "getScraperForPlatform (i ''platform'') = Inr sc \<Longrightarrow>
   getRecentPosts w sc (i ''username'') = Inl e \<Longrightarrow>
   processInfluencer w i existing = failureResult (i ''username'') (i ''platform'') (message e)"
  by (simp add: processInfluencer_def)

lemma processInfluencer_platform_throws:
  "getScraperForPlatform (i ''platform'') = Inl e \<Longrightarrow>
   processInfluencer w i existing = failureResult (i ''username'') (i ''platform'') (message e)"
  by (simp add: processInfluencer_def)

lemma processInfluencer_no_posts:
  "getScraperForPlatform (i ''platform'') = Inr sc \<Longrightarrow>
   getRecentPosts w sc (i ''username'') = Inr [] \<Longrightarrow>
   processInfluencer w i existing = failureResult (i ''username'') (i ''platform'') ''No posts found''"
  by (simp add: processInfluencer_def)

lemma run_summary:
  assumes "readInfluencers st = Inr influencers" "readExistingPosts st = Inr existing"
      and "influencers \<noteq> []"
      and "\<forall>u. updateAverageViews st u = None" "\<forall>ps. appendPosts st ps = None"
          "\<forall>ps. updateExistingPosts st ps = None"
  shows "run w st =
    Inr \<lparr>totalInfluencers = length influencers,
         successCount = length (filter r_success (map (\<lambda>i. processInfluencer w i existing) influencers)),
         failureCount = length (filter (\<lambda>r. \<not> r_success r) (map (\<lambda>i. processInfluencer w i existing) influencers)),
         totalPosts = foldl (\<lambda>sum r. sum + r_postsCount r) 0
            (filter r_success (map (\<lambda>i. processInfluencer w i existing) influencers)),
         newPosts = length (concat (map r_toAppend
            (filter r_success (map (\<lambda>i. processInfluencer w i existing) influencers)))),
         updatedPosts = length (concat (map r_toUpdate
            (filter r_success (map (\<lambda>i. processInfluencer w i existing) influencers)))),
         errors = map (\<lambda>r. (r_username r, r_platform r, r_error r))
            (filter (\<lambda>r. \<not> r_success r) (map (\<lambda>i. processInfluencer w i existing) influencers))\<rparr>"
proof -
  have w: "whenNonEmpty (updateAverageViews st) us = None"
      "whenNonEmpty (appendPosts st) ps = None"
      "whenNonEmpty (updateExistingPosts st) ps = None" for us ps
    using assms(4-6) by (simp_all add: whenNonEmpty_def)
  show ?thesis
    unfolding run_def Let_def using assms(1-3) by (simp add: w)
qed

text \<open>
  C7. When the storage collaborator reads a non-empty list of influencers and its
  writes do not throw, \<^verbatim>\<open>run\<close> returns a summary, whatever happens while the
  influencers are processed. Each influencer is counted by its own outcome. An
  influencer whose scraper throws, whose platform is rejected or for whom no post is
  returned becomes a failure result with zero posts and the error's message, and is
  in the \<^verbatim>\<open>errors\<close> list of the summary with that message.
\<close>

theorem run_isolates_failures:
  assumes rd: "readInfluencers st = Inr influencers" "readExistingPosts st = Inr existing"
      and ne: "influencers \<noteq> []"
      and wr: "\<forall>u. updateAverageViews st u = None" "\<forall>ps. appendPosts st ps = None"
          "\<forall>ps. updateExistingPosts st ps = None"
  shows "\<exists>s. run w st = Inr s
     \<and> totalInfluencers s = length influencers
     \<and> successCount s = length (filter (\<lambda>i. r_success (processInfluencer w i existing)) influencers)
     \<and> failureCount s = length (filter (\<lambda>i. \<not> r_success (processInfluencer w i existing)) influencers)
     \<and> successCount s + failureCount s = length influencers
     \<and> (\<forall>i\<in>set influencers. \<forall>sc e.
           getScraperForPlatform (i ''platform'') = Inr sc \<and> getRecentPosts w sc (i ''username'') = Inl e \<longrightarrow>
             processInfluencer w i existing = failureResult (i ''username'') (i ''platform'') (message e)
           \<and> r_postsCount (processInfluencer w i existing) = 0
           \<and> (i ''username'', i ''platform'', Some (message e)) \<in> set (errors s))
     \<and> (\<forall>i\<in>set influencers. \<forall>e.
           getScraperForPlatform (i ''platform'') = Inl e \<longrightarrow>
             (i ''username'', i ''platform'', Some (message e)) \<in> set (errors s))
     \<and> (\<forall>i\<in>set influencers. \<forall>sc.
           getScraperForPlatform (i ''platform'') = Inr sc \<and> getRecentPosts w sc (i ''username'') = Inr [] \<longrightarrow>
             (i ''username'', i ''platform'', Some ''No posts found'') \<in> set (errors s))"
proof -
  let ?res = "map (\<lambda>i. processInfluencer w i existing) influencers"
  let ?s = "\<lparr>totalInfluencers = length influencers,
         successCount = length (filter r_success ?res),
         failureCount = length (filter (\<lambda>r. \<not> r_success r) ?res),
         totalPosts = foldl (\<lambda>sum r. sum + r_postsCount r) 0 (filter r_success ?res),
         newPosts = length (concat (map r_toAppend (filter r_success ?res))),
         updatedPosts = length (concat (map r_toUpdate (filter r_success ?res))),
         errors = map (\<lambda>r. (r_username r, r_platform r, r_error r))
            (filter (\<lambda>r. \<not> r_success r) ?res)\<rparr>"
  have r: "run w st = Inr ?s" using run_summary[OF rd ne wr] .
  have inerr: "(i ''username'', i ''platform'', Some m) \<in> set (errors ?s)"
    if "i \<in> set influencers" "processInfluencer w i existing = failureResult (i ''username'') (i ''platform'') m"
    for i m
  proof -
    have "processInfluencer w i existing \<in> set ?res"
      using that(1) by simp
    moreover have "\<not> r_success (processInfluencer w i existing)"
      using that(2) by (simp add: failureResult_def)
    ultimately have "processInfluencer w i existing \<in> set (filter (\<lambda>r. \<not> r_success r) ?res)"
      by simp
    then have "(\<lambda>r. (r_username r, r_platform r, r_error r)) (processInfluencer w i existing)
        \<in> set (errors ?s)"
      using imageI[of "processInfluencer w i existing" "set (filter (\<lambda>r. \<not> r_success r) ?res)"
          "\<lambda>r. (r_username r, r_platform r, r_error r)"]
      by (simp del: set_filter set_map add: set_map[symmetric])
    then show ?thesis using that(2) by (simp add: failureResult_def del: set_filter set_map)
  qed
  have cnt1: "successCount ?s = length (filter (\<lambda>i. r_success (processInfluencer w i existing)) influencers)"
    by (simp add: filter_map comp_def)
  have cnt2: "failureCount ?s = length (filter (\<lambda>i. \<not> r_success (processInfluencer w i existing)) influencers)"
    by (simp add: filter_map comp_def)
  have sum: "successCount ?s + failureCount ?s = length influencers"
    using sum_length_filter_compl[of r_success ?res] by simp
  have a: "\<forall>i\<in>set influencers. \<forall>sc e.
           getScraperForPlatform (i ''platform'') = Inr sc \<and> getRecentPosts w sc (i ''username'') = Inl e \<longrightarrow>
             processInfluencer w i existing = failureResult (i ''username'') (i ''platform'') (message e)
           \<and> r_postsCount (processInfluencer w i existing) = 0
           \<and> (i ''username'', i ''platform'', Some (message e)) \<in> set (errors ?s)"
  proof (intro ballI allI impI)
    fix i sc e
    assume i: "i \<in> set influencers"
      and h: "getScraperForPlatform (i ''platform'') = Inr sc \<and> getRecentPosts w sc (i ''username'') = Inl e"
    then have p: "processInfluencer w i existing = failureResult (i ''username'') (i ''platform'') (message e)"
      by (simp add: processInfluencer_fetch_throws)
    moreover have "r_postsCount (processInfluencer w i existing) = 0"
      using p by (simp add: failureResult_def)
    moreover note inerr[OF i p]
    ultimately show "processInfluencer w i existing = failureResult (i ''username'') (i ''platform'') (message e)
           \<and> r_postsCount (processInfluencer w i existing) = 0
           \<and> (i ''username'', i ''platform'', Some (message e)) \<in> set (errors ?s)"
      by blast
  qed
  have b: "\<forall>i\<in>set influencers. \<forall>e.
           getScraperForPlatform (i ''platform'') = Inl e \<longrightarrow>
             (i ''username'', i ''platform'', Some (message e)) \<in> set (errors ?s)"
    using inerr processInfluencer_platform_throws by blast
  have c: "\<forall>i\<in>set influencers. \<forall>sc.
           getScraperForPlatform (i ''platform'') = Inr sc \<and> getRecentPosts w sc (i ''username'') = Inr [] \<longrightarrow>
             (i ''username'', i ''platform'', Some ''No posts found'') \<in> set (errors ?s)"
    using inerr processInfluencer_no_posts by blast
  have t: "totalInfluencers ?s = length influencers" by simp
  show ?thesis
    using r t cnt1 cnt2 sum a b c by blast
qed

lemma sample_results:
  "processInfluencer sampleWorld (identity ''alice'' ''tiktok'') [] =
     failureResult (JStr ''alice'') (JStr ''tiktok'') ''boom''"
  "r_success (processInfluencer sampleWorld (identity ''bob'' ''tiktok'') [])"
  by (simp_all add: processInfluencer_def identity_def emptyObj_def scraper_samples sampleWorld_def
        Error_def Let_def)

text \<open>
  C7 on two influencers, the scraper throwing \<open>boom\<close> for the first: the summary
  counts two influencers, one success and one failure, and lists the first with
  \<open>boom\<close>.
\<close>

theorem run_isolates_failures_witness:
  "\<exists>s. run sampleWorld sampleStorage = Inr s
     \<and> totalInfluencers s = 2 \<and> successCount s = 1 \<and> failureCount s = 1
     \<and> (JStr ''alice'', JStr ''tiktok'', Some ''boom'') \<in> set (errors s)"
proof -
  let ?is = "[identity ''alice'' ''tiktok'', identity ''bob'' ''tiktok'']"
  have rd: "readInfluencers sampleStorage = Inr ?is" "readExistingPosts sampleStorage = Inr []"
    by (simp_all add: sampleStorage_def)
  have ne: "?is \<noteq> []" by simp
  have wr: "\<forall>u. updateAverageViews sampleStorage u = None"
    "\<forall>ps. appendPosts sampleStorage ps = None"
    "\<forall>ps. updateExistingPosts sampleStorage ps = None"
    by (simp_all add: sampleStorage_def)
  obtain s where s: "run sampleWorld sampleStorage = Inr s"
      "totalInfluencers s = length ?is"
      "successCount s = length (filter (\<lambda>i. r_success (processInfluencer sampleWorld i [])) ?is)"
      "failureCount s = length (filter (\<lambda>i. \<not> r_success (processInfluencer sampleWorld i [])) ?is)"
      "\<forall>i\<in>set ?is. \<forall>sc e.
           getScraperForPlatform (i ''platform'') = Inr sc
             \<and> getRecentPosts sampleWorld sc (i ''username'') = Inl e \<longrightarrow>
             processInfluencer sampleWorld i [] = failureResult (i ''username'') (i ''platform'') (message e)
           \<and> r_postsCount (processInfluencer sampleWorld i []) = 0
           \<and> (i ''username'', i ''platform'', Some (message e)) \<in> set (errors s)"
    using run_isolates_failures[OF rd ne wr, of sampleWorld] by blast
  have "(JStr ''alice'', JStr ''tiktok'', Some ''boom'') \<in> set (errors s)"
    using s(5)[rule_format, of "identity ''alice'' ''tiktok''" TikTokScraper "Error ''boom''"]
    by (simp add: identity_def emptyObj_def scraper_samples sampleWorld_def Error_def)
  then show ?thesis
    using s(1-4) by (simp add: sample_results failureResult_def)
qed

section \<open>Retry of requests\<close>

lemma rapid_unfold:
  "RapidApi_makeRequest M axios attempt =
     (case axios attempt of
        Inr response \<Rightarrow> ([], Inr response)
      | Inl error \<Rightarrow>
          if attempt \<ge> M then ([], Inl error)
          else (backoffDelay attempt # fst (RapidApi_makeRequest M axios (attempt + 1)),
                snd (RapidApi_makeRequest M axios (attempt + 1))))"
  by (subst RapidApi_makeRequest.simps) (simp split: sum.splits prod.splits)

lemma rapid_all_fail:
  "attempt \<le> M \<Longrightarrow> \<forall>k. attempt \<le> k \<and> k \<le> M \<longrightarrow> axios k = Inl (e k) \<Longrightarrow>
   RapidApi_makeRequest M axios attempt = (map backoffDelay [attempt..<M], Inl (e M))"
proof (induction "M - attempt" arbitrary: attempt)
  case 0
  then have "attempt = M" by simp
  with 0 show ?case by (subst rapid_unfold) simp
next
  case (Suc d)
  then have lt: "attempt < M" by simp
  have IH: "RapidApi_makeRequest M axios (attempt + 1) = (map backoffDelay [attempt + 1..<M], Inl (e M))"
    using Suc.hyps(1)[of "attempt + 1"] Suc.hyps(2) Suc.prems by simp
  have f: "axios attempt = Inl (e attempt)" using Suc.prems by simp
  show ?case
    using lt f IH by (subst rapid_unfold) (simp add: upt_conv_Cons)
qed

lemma rapid_first_success:
  "attempt \<le> n \<Longrightarrow> n \<le> M \<Longrightarrow> axios n = Inr r \<Longrightarrow>
   \<forall>k. attempt \<le> k \<and> k < n \<longrightarrow> (\<exists>e. axios k = Inl e) \<Longrightarrow>
   RapidApi_makeRequest M axios attempt = (map backoffDelay [attempt..<n], Inr r)"
proof (induction "n - attempt" arbitrary: attempt)
  case 0
  then have "attempt = n" by simp
  with 0 show ?case by (subst rapid_unfold) simp
next
  case (Suc d)
  then have lt: "attempt < n" by simp
  have IH: "RapidApi_makeRequest M axios (attempt + 1) = (map backoffDelay [attempt + 1..<n], Inr r)"
    using Suc.hyps(1)[of "attempt + 1"] Suc.hyps(2) Suc.prems by simp
  obtain e where f: "axios attempt = Inl e" using Suc.prems lt by auto
  show ?case
    using lt f IH Suc.prems(2) by (subst rapid_unfold) (simp add: upt_conv_Cons)
qed

lemma rapid_calls_bounded:
  "length (fst (RapidApi_makeRequest M axios attempt)) \<le> M - attempt"
proof (induction "M - attempt" arbitrary: attempt)
  case 0
  then show ?case by (subst rapid_unfold) (simp split: sum.splits)
next
  case (Suc d)
  have IH: "length (fst (RapidApi_makeRequest M axios (attempt + 1))) \<le> M - (attempt + 1)"
    using Suc.hyps(1)[of "attempt + 1"] Suc.hyps(2) by simp
  have lt: "attempt < M" using Suc.hyps(2) by simp
  show ?case
  proof (cases "axios attempt")
    case (Inr r)
    then show ?thesis by (subst rapid_unfold) simp
  next
    case (Inl e)
    then show ?thesis using IH lt by (subst rapid_unfold) simp
  qed
qed

lemma meta_request_unfold:
  "Meta_makeRequest pn axios a =
     (case axios a of Inr response \<Rightarrow> ([], Inr response)
      | Inl error \<Rightarrow> Meta_handleError pn axios error a)"
  by (rule Meta_makeRequest.simps)

lemma meta_handle_throw:
  "metaFatal e \<or> \<not> (a < 3 \<and> metaTransient e) \<Longrightarrow>
   fst (Meta_handleError pn axios e a) = [] \<and> (\<exists>e'. snd (Meta_handleError pn axios e a) = Inl e')"
  by (subst (1 2) Meta_handleError.simps)
     (auto simp: Let_def metaFatal_def metaTransient_def maxRetries_def)

lemma meta_handle_retry:
  "\<not> metaFatal e \<Longrightarrow> a < 3 \<Longrightarrow> metaTransient e \<Longrightarrow>
   Meta_handleError pn axios e a =
     (metaDelay a # fst (Meta_makeRequest pn axios (a + 1)), snd (Meta_makeRequest pn axios (a + 1)))"
  by (subst Meta_handleError.simps)
     (simp add: Let_def metaFatal_def metaTransient_def maxRetries_def split: prod.splits)

lemma meta_success: "axios a = Inr r \<Longrightarrow> Meta_makeRequest pn axios a = ([], Inr r)"
  by (simp add: meta_request_unfold)

lemma meta_fatal:
  "axios a = Inl e \<Longrightarrow> metaFatal e \<Longrightarrow>
   fst (Meta_makeRequest pn axios a) = [] \<and> (\<exists>e'. snd (Meta_makeRequest pn axios a) = Inl e')"
  using meta_handle_throw[of e a pn axios] by (simp add: meta_request_unfold)

lemma meta_not_transient:
  "axios a = Inl e \<Longrightarrow> \<not> metaTransient e \<Longrightarrow>
   fst (Meta_makeRequest pn axios a) = [] \<and> (\<exists>e'. snd (Meta_makeRequest pn axios a) = Inl e')"
  using meta_handle_throw[of e a pn axios] by (simp add: meta_request_unfold)

lemma meta_last_attempt:
  "axios a = Inl e \<Longrightarrow> a \<ge> 3 \<Longrightarrow>
   fst (Meta_makeRequest pn axios a) = [] \<and> (\<exists>e'. snd (Meta_makeRequest pn axios a) = Inl e')"
  using meta_handle_throw[of e a pn axios] by (simp add: meta_request_unfold)

lemma meta_retry:
  "axios a = Inl e \<Longrightarrow> metaTransient e \<Longrightarrow> \<not> metaFatal e \<Longrightarrow> a < 3 \<Longrightarrow>
   Meta_makeRequest pn axios a =
     (metaDelay a # fst (Meta_makeRequest pn axios (a + 1)), snd (Meta_makeRequest pn axios (a + 1)))"
  by (simp add: meta_request_unfold meta_handle_retry)

lemma meta_calls_bounded: "length (fst (Meta_makeRequest pn axios a)) \<le> 3 - a"
proof (induction "3 - a" arbitrary: a)
  case 0
  then have a: "a \<ge> 3" by simp
  show ?case
  proof (cases "axios a")
    case (Inl e)
    then show ?thesis using meta_last_attempt[of axios a e pn] a by simp
  next
    case (Inr r)
    then show ?thesis by (simp add: meta_success)
  qed
next
  case (Suc d)
  then have a: "a < 3" by simp
  have IH: "length (fst (Meta_makeRequest pn axios (a + 1))) \<le> 3 - (a + 1)"
    using Suc.hyps(1)[of "a + 1"] Suc.hyps(2) by simp
  show ?case
  proof (cases "axios a")
    case (Inr r)
    then show ?thesis by (simp add: meta_success)
  next
    case (Inl e)
    show ?thesis
    proof (cases "metaTransient e \<and> \<not> metaFatal e")
      case True
      then show ?thesis using meta_retry[of axios a e pn] Inl IH a by simp
    next
      case False
      then show ?thesis using meta_fatal[of axios a e pn] meta_not_transient[of axios a e pn] Inl by auto
    qed
  qed
qed

text \<open>
  C5, as the code has it. \<^verbatim>\<open>RapidApiStrategy.makeRequest\<close> retries every failure,
  of whatever kind, until the attempt number reaches the configured count \<open>M\<close>: when
  all attempts fail it has slept \<open>1000, 2000, 4000, \<dots>\<close> milliseconds before the
  attempts \<open>2, \<dots>, M\<close> and throws the last error; when attempt \<open>n \<le> M\<close> is the first
  to succeed it has slept before the attempts \<open>2, \<dots>, n\<close>; it never makes more than
  \<open>M\<close> calls (one call when \<open>M\<close> is \<open>0\<close>). \<^verbatim>\<open>MetaApiStrategy.makeRequest\<close> makes at
  most three calls, a constant of the class: an error with the code 190, 100 or 10,
  an error that is neither a rate limit (code 4 or 17) nor a timeout
  (\<^verbatim>\<open>ECONNABORTED\<close>), and an error of the third attempt are thrown without a retry;
  a rate limit or a timeout of the first or second attempt is retried after
  \<open>1000 * 2^(attempt - 1)\<close> milliseconds.
\<close>

theorem retry_policy:
  "(1 \<le> M \<and> (\<forall>k. 1 \<le> k \<and> k \<le> M \<longrightarrow> axios k = Inl (e k)) \<longrightarrow>
      RapidApi_makeRequest M axios 1 = (map (\<lambda>k. 2 ^ (k - 1) * 1000) [1..<M], Inl (e M)))
   \<and> (1 \<le> n \<and> n \<le> M \<and> axios n = Inr r \<and> (\<forall>k. 1 \<le> k \<and> k < n \<longrightarrow> (\<exists>e. axios k = Inl e)) \<longrightarrow>
      RapidApi_makeRequest M axios 1 = (map (\<lambda>k. 2 ^ (k - 1) * 1000) [1..<n], Inr r))
   \<and> length (fst (RapidApi_makeRequest M axios 1)) \<le> M - 1
   \<and> (maxios a = Inl err \<and> (metaFatal err \<or> \<not> metaTransient err \<or> a \<ge> 3) \<longrightarrow>
      fst (Meta_makeRequest pn maxios a) = [] \<and> (\<exists>e'. snd (Meta_makeRequest pn maxios a) = Inl e'))
   \<and> (maxios a = Inl err \<and> metaTransient err \<and> \<not> metaFatal err \<and> 1 \<le> a \<and> a < 3 \<longrightarrow>
      Meta_makeRequest pn maxios a =
        (1000 * 2 ^ (a - 1) # fst (Meta_makeRequest pn maxios (a + 1)),
         snd (Meta_makeRequest pn maxios (a + 1))))
   \<and> (maxios a = Inr r' \<longrightarrow> Meta_makeRequest pn maxios a = ([], Inr r'))
   \<and> length (fst (Meta_makeRequest pn maxios 1)) \<le> 2"
proof -
  have bd: "map backoffDelay [1..<m] = map (\<lambda>k. 2 ^ (k - 1) * 1000) [1..<m]" for m
    by (simp add: backoffDelay_def)
  have 1: "1 \<le> M \<and> (\<forall>k. 1 \<le> k \<and> k \<le> M \<longrightarrow> axios k = Inl (e k)) \<longrightarrow>
      RapidApi_makeRequest M axios 1 = (map (\<lambda>k. 2 ^ (k - 1) * 1000) [1..<M], Inl (e M))"
    using rapid_all_fail[of 1 M axios e] bd[of M] by simp
  have 2: "1 \<le> n \<and> n \<le> M \<and> axios n = Inr r \<and> (\<forall>k. 1 \<le> k \<and> k < n \<longrightarrow> (\<exists>e. axios k = Inl e)) \<longrightarrow>
      RapidApi_makeRequest M axios 1 = (map (\<lambda>k. 2 ^ (k - 1) * 1000) [1..<n], Inr r)"
    using rapid_first_success[of 1 n M axios r] bd[of n] by simp
  have 3: "length (fst (RapidApi_makeRequest M axios 1)) \<le> M - 1"
    by (rule rapid_calls_bounded)
  have 4: "maxios a = Inl err \<and> (metaFatal err \<or> \<not> metaTransient err \<or> a \<ge> 3) \<longrightarrow>
      fst (Meta_makeRequest pn maxios a) = [] \<and> (\<exists>e'. snd (Meta_makeRequest pn maxios a) = Inl e')"
    using meta_fatal[of maxios a err pn] meta_not_transient[of maxios a err pn]
      meta_last_attempt[of maxios a err pn] by blast
  have 5: "maxios a = Inl err \<and> metaTransient err \<and> \<not> metaFatal err \<and> 1 \<le> a \<and> a < 3 \<longrightarrow>
      Meta_makeRequest pn maxios a =
        (1000 * 2 ^ (a - 1) # fst (Meta_makeRequest pn maxios (a + 1)),
         snd (Meta_makeRequest pn maxios (a + 1)))"
    using meta_retry[of maxios a err pn] by (auto simp: metaDelay_def baseDelay_def)
  have 6: "maxios a = Inr r' \<longrightarrow> Meta_makeRequest pn maxios a = ([], Inr r')"
    by (simp add: meta_success)
  have 7: "length (fst (Meta_makeRequest pn maxios 1)) \<le> 2"
    using meta_calls_bounded[of pn maxios 1] by simp
  show ?thesis using 1 2 3 4 5 6 7 by blast
qed

text \<open>
  C5 on four runs: with \<open>M = 3\<close> and a server error at every attempt the delays
  are one and two seconds and the error is thrown; with a success at the second
  attempt the only delay is one second; an expired token is not retried by the Meta
  strategy; a rate limit at the first two attempts is retried by it after one and two
  seconds.
\<close>

theorem retry_policy_witness:
  "RapidApi_makeRequest 3 (failing (httpError 500 ''Server error'')) 1
     = ([1000, 2000], (Inl (httpError 500 ''Server error'') :: exn + unit))
   \<and> RapidApi_makeRequest 3 (succeedsAt 2 (httpError 500 ''Server error'') ()) 1
     = ([1000], Inr ())
   \<and> fst (Meta_makeRequest ''Instagram'' (failing (metaError 190 ''expired'') :: nat \<Rightarrow> exn + unit) 1) = []
   \<and> Meta_makeRequest ''Instagram'' (succeedsAt 3 (metaError 4 ''limit'') ()) 1 = ([1000, 2000], Inr ())"
proof -
  have fatal: "metaFatal (metaError 190 ''expired'')"
    by (simp add: metaFatal_def metaError_def strictEq_def Error_def)
  have transient: "metaTransient (metaError 4 ''limit'')" "\<not> metaFatal (metaError 4 ''limit'')"
    by (simp_all add: metaTransient_def metaFatal_def metaError_def strictEq_def Error_def)
  have rapid: "RapidApi_makeRequest 3 (failing (httpError 500 ''Server error'')) 1
     = ([1000, 2000], (Inl (httpError 500 ''Server error'') :: exn + unit))
   \<and> RapidApi_makeRequest 3 (succeedsAt 2 (httpError 500 ''Server error'') ()) 1
     = ([1000], Inr ())
   \<and> fst (Meta_makeRequest ''Instagram'' (failing (metaError 190 ''expired'') :: nat \<Rightarrow> exn + unit) 1) = []"
    using fatal
      retry_policy[of 3 "failing (httpError 500 ''Server error'') :: nat \<Rightarrow> exn + unit"
        "\<lambda>k. httpError 500 ''Server error''" 1 "()"
        "failing (metaError 190 ''expired'')" 1 "metaError 190 ''expired''" "''Instagram''" "()"]
      retry_policy[of 3 "succeedsAt 2 (httpError 500 ''Server error'') ()"
        "\<lambda>k. httpError 500 ''Server error''" 2 "()"
        "failing (metaError 190 ''expired'') :: nat \<Rightarrow> exn + unit" 1 "metaError 190 ''expired''" "''Instagram''" "()"]
    by (simp add: failing_def succeedsAt_def upt_conv_Cons)
  let ?ax = "succeedsAt 3 (metaError 4 ''limit'') ()"
  have 3: "Meta_makeRequest ''Instagram'' ?ax (Suc (Suc (Suc 0))) = ([], Inr ())"
    using retry_policy[of 0 "failing (Error []) :: nat \<Rightarrow> exn + unit" "\<lambda>k. Error []" 0 "()"
        ?ax "Suc (Suc (Suc 0))" "Error []" "''Instagram''" "()"]
    by (simp add: succeedsAt_def)
  have 2: "Meta_makeRequest ''Instagram'' ?ax (Suc (Suc 0)) = ([2000], Inr ())"
    using transient 3
      retry_policy[of 0 "failing (Error []) :: nat \<Rightarrow> exn + unit" "\<lambda>k. Error []" 0 "()"
        ?ax "Suc (Suc 0)" "metaError 4 ''limit''" "''Instagram''" "()"]
    by (simp add: succeedsAt_def)
  have 1: "Meta_makeRequest ''Instagram'' ?ax (Suc 0) = ([1000, 2000], Inr ())"
    using transient 2
      retry_policy[of 0 "failing (Error []) :: nat \<Rightarrow> exn + unit" "\<lambda>k. Error []" 0 "()"
        ?ax "Suc 0" "metaError 4 ''limit''" "''Instagram''" "()"]
    by (simp add: succeedsAt_def)
  show ?thesis using rapid 1 by simp
qed

text \<open>
  C5 as stated fails. With \<open>M = 3\<close>, \<^verbatim>\<open>RapidApiStrategy.makeRequest\<close> retries a
  request that fails with the status 404 twice, after one and two seconds; and
  \<^verbatim>\<open>MetaApiStrategy.makeRequest\<close> does not retry a request that fails with the
  status 503.
\<close>

theorem rapidApi_retries_not_found:
  "RapidApi_makeRequest 3 (failing (httpError 404 ''Not found'')) 1
     = ([1000, 2000], (Inl (httpError 404 ''Not found'') :: exn + unit))
   \<and> fst (Meta_makeRequest ''Instagram'' (failing (httpError 503 ''Service unavailable'') :: nat \<Rightarrow> exn + unit) 1) = []"
proof -
  have nt: "\<not> metaTransient (httpError 503 ''Service unavailable'')"
    by (simp add: metaTransient_def httpError_def strictEq_def Error_def)
  show ?thesis
    using rapid_all_fail[of 1 3 "failing (httpError 404 ''Not found'') :: nat \<Rightarrow> exn + unit"
        "\<lambda>k. httpError 404 ''Not found''"]
      meta_not_transient[of "failing (httpError 503 ''Service unavailable'') :: nat \<Rightarrow> exn + unit" 1
        "httpError 503 ''Service unavailable''" "''Instagram''", OF _ nt]
    by (simp add: failing_def backoffDelay_def upt_conv_Cons)
qed

section \<open>Failures of getRecentPosts\<close>

lemma tiktok_returns:
  "\<exists>ps. snd (TikTokWebStrategy_getRecentPosts b u) = Inr ps"
  by (auto simp: TikTokWebStrategy_getRecentPosts_def TikTok_catch_def split: option.splits prod.splits)

lemma tiktok_failure:
  "throwingStep b = Some e \<Longrightarrow>
   TikTokWebStrategy_getRecentPosts b u =
     ([fst (WebScraperStrategy_handleError ''TikTok'' e u),
       LogError (''[Web Scraping] Failed to fetch TikTok posts for '' @ u @ '': ''
                 @ ei_message (snd (WebScraperStrategy_handleError ''TikTok'' e u)))],
      Inr [])"
  by (auto simp: throwingStep_def TikTokWebStrategy_getRecentPosts_def TikTok_catch_def
           split: option.splits prod.splits if_splits)

lemma rapid_strategy_returns:
  "\<exists>ps. snd (InstagramRapidApiStrategy_getRecentPosts M axios tr u) = Inr ps"
  by (auto simp: InstagramRapidApiStrategy_getRecentPosts_def split: sum.splits prod.splits)

lemma rapid_strategy_failure:
  "snd (RapidApi_makeRequest M axios 1) = Inl e \<Longrightarrow>
   InstagramRapidApiStrategy_getRecentPosts M axios tr u =
     ([fst (ScrapingStrategy_handleError ''Instagram'' e u),
       LogError (''[RapidAPI] Failed to fetch Instagram posts for '' @ u @ '': ''
                 @ ei_message (snd (ScrapingStrategy_handleError ''Instagram'' e u)))],
      Inr [])"
  by (auto simp: InstagramRapidApiStrategy_getRecentPosts_def split: sum.splits prod.splits)

lemma meta_strategy_rethrows:
  "snd (Meta_makeRequest ''Instagram'' maxios 1) = Inl e \<Longrightarrow>
   InstagramMetaStrategy_getRecentPosts maxios u =
     ([LogError (''Instagram Meta API scraping failed: '' @ message e)], Inl e)"
  by (simp add: InstagramMetaStrategy_getRecentPosts_def)

lemma base_returns:
  "\<exists>ps. snd (BaseScraper_getRecentPosts pn (Some s) u) = Inr ps"
  by (auto simp: BaseScraper_getRecentPosts_def split: option.splits sum.splits)

lemma base_failure:
  "s_initialize s = Some e \<or> (s_initialize s = None \<and> s_getRecentPosts s = Inl e) \<Longrightarrow>
   BaseScraper_getRecentPosts pn (Some s) u =
     ([LogError (pn @ '': Error getting posts for '' @ u @ '': '' @ message e)], Inr [])"
  by (auto simp: BaseScraper_getRecentPosts_def split: option.splits sum.splits)

lemma base_no_strategy:
  "BaseScraper_getRecentPosts pn None u = ([], Inl (Error ''No scraping strategy configured''))"
  by (simp add: BaseScraper_getRecentPosts_def)

lemma classification:
  "strictEq (responseStatus e) (JNum (Fin 404)) \<Longrightarrow>
     ei_error (snd (ScrapingStrategy_handleError pn e u)) = ''user_not_found''"
  "strictEq (responseStatus e) (JNum (Fin 403)) \<Longrightarrow>
     ei_error (snd (ScrapingStrategy_handleError pn e u)) = ''private_account''"
  "strictEq (responseStatus e) (JNum (Fin 429)) \<Longrightarrow>
     ei_error (snd (ScrapingStrategy_handleError pn e u)) = ''rate_limit''"
  by (auto simp: ScrapingStrategy_handleError_def Let_def strictEq_def)

text \<open>
  C6, as the code has it. \<^verbatim>\<open>TikTokWebStrategy.getRecentPosts\<close> and
  \<^verbatim>\<open>InstagramRapidApiStrategy.getRecentPosts\<close> never throw: when a step fails they log
  the error as \<^verbatim>\<open>handleError\<close> classifies it and return the empty list (status 404
  is \<open>user_not_found\<close>, 403 \<open>private_account\<close>, 429 \<open>rate_limit\<close>).
  \<^verbatim>\<open>InstagramMetaStrategy.getRecentPosts\<close> logs the error of a failed request and
  throws it again. \<^verbatim>\<open>BaseScraper.getRecentPosts\<close>, through which the job calls
  every strategy, returns the empty list and logs the message whenever the strategy's
  \<^verbatim>\<open>initialize\<close> or \<^verbatim>\<open>getRecentPosts\<close> throws; it throws only when no strategy is
  configured. The classified error is logged, not handed to the caller.
\<close>

theorem getRecentPosts_failures:
  "(\<exists>ps. snd (TikTokWebStrategy_getRecentPosts b u) = Inr ps)
   \<and> (throwingStep b = Some e1 \<longrightarrow>
        TikTokWebStrategy_getRecentPosts b u =
          ([fst (WebScraperStrategy_handleError ''TikTok'' e1 u),
            LogError (''[Web Scraping] Failed to fetch TikTok posts for '' @ u @ '': ''
                      @ ei_message (snd (WebScraperStrategy_handleError ''TikTok'' e1 u)))],
           Inr []))
   \<and> (\<exists>ps. snd (InstagramRapidApiStrategy_getRecentPosts M axios tr u) = Inr ps)
   \<and> (snd (RapidApi_makeRequest M axios 1) = Inl e2 \<longrightarrow>
        InstagramRapidApiStrategy_getRecentPosts M axios tr u =
          ([fst (ScrapingStrategy_handleError ''Instagram'' e2 u),
            LogError (''[RapidAPI] Failed to fetch Instagram posts for '' @ u @ '': ''
                      @ ei_message (snd (ScrapingStrategy_handleError ''Instagram'' e2 u)))],
           Inr []))
   \<and> (snd (Meta_makeRequest ''Instagram'' maxios 1) = Inl e3 \<longrightarrow>
        InstagramMetaStrategy_getRecentPosts maxios u =
          ([LogError (''Instagram Meta API scraping failed: '' @ message e3)], Inl e3))
   \<and> (\<exists>ps. snd (BaseScraper_getRecentPosts pn (Some s) u) = Inr ps)
   \<and> (s_initialize s = Some e4 \<or> (s_initialize s = None \<and> s_getRecentPosts s = Inl e4) \<longrightarrow>
        BaseScraper_getRecentPosts pn (Some s) u =
          ([LogError (pn @ '': Error getting posts for '' @ u @ '': '' @ message e4)], Inr []))
   \<and> BaseScraper_getRecentPosts pn None u = ([], Inl (Error ''No scraping strategy configured''))
   \<and> (strictEq (responseStatus e5) (JNum (Fin 404)) \<longrightarrow>
        ei_error (snd (ScrapingStrategy_handleError pn e5 u)) = ''user_not_found'')
   \<and> (strictEq (responseStatus e5) (JNum (Fin 403)) \<longrightarrow>
        ei_error (snd (ScrapingStrategy_handleError pn e5 u)) = ''private_account'')
   \<and> (strictEq (responseStatus e5) (JNum (Fin 429)) \<longrightarrow>
        ei_error (snd (ScrapingStrategy_handleError pn e5 u)) = ''rate_limit'')"
  using tiktok_returns[of b u] tiktok_failure[of b e1 u] rapid_strategy_returns[of M axios tr u]
    rapid_strategy_failure[of M axios e2 tr u] meta_strategy_rethrows[of maxios e3 u]
    base_returns[of pn s u] base_failure[of s e4 pn u] base_no_strategy[of pn u]
    classification[of e5 pn u]
  by blast

lemma meta_rate_limited_thrice:
  "snd (Meta_makeRequest ''Instagram'' (failing (metaError 4 ''limit'') :: nat \<Rightarrow> exn + 'r) 1)
     = Inl (Error ''Instagram Meta API request failed after 3 attempts. Error: limit'')"
proof -
  let ?ax = "failing (metaError 4 ''limit'') :: nat \<Rightarrow> exn + 'r"
  have t: "metaTransient (metaError 4 ''limit'')" "\<not> metaFatal (metaError 4 ''limit'')"
    by (simp_all add: metaTransient_def metaFatal_def metaError_def strictEq_def Error_def)
  have f: "?ax k = Inl (metaError 4 ''limit'')" for k by (simp add: failing_def)
  have 1: "snd (Meta_makeRequest ''Instagram'' ?ax (Suc 0))
      = snd (Meta_makeRequest ''Instagram'' ?ax (Suc (Suc 0)))"
    using meta_retry[of ?ax "Suc 0" "metaError 4 ''limit''" "''Instagram''", OF f t] by simp
  have 2: "snd (Meta_makeRequest ''Instagram'' ?ax (Suc (Suc 0)))
      = snd (Meta_makeRequest ''Instagram'' ?ax (Suc (Suc (Suc 0))))"
    using meta_retry[of ?ax "Suc (Suc 0)" "metaError 4 ''limit''" "''Instagram''", OF f t] by simp
  have n3: "natToString (Suc (Suc (Suc 0))) = ''3''" by (subst natToString.simps) simp
  have 3: "snd (Meta_makeRequest ''Instagram'' ?ax (Suc (Suc (Suc 0))))
      = Inl (Error ''Instagram Meta API request failed after 3 attempts. Error: limit'')"
    by (subst meta_request_unfold, simp add: f, subst Meta_handleError.simps)
       (simp add: Let_def metaError_def strictEq_def Error_def maxRetries_def metaErrorMessage_def n3)
  show ?thesis using 1 2 3 by simp
qed

text \<open>
  C6 on three runs: the TikTok strategy logs a rate limit and returns the empty list
  when the navigation fails with the status 429; the Instagram RapidAPI strategy
  returns the empty list when its request fails with the status 404, which is
  classified \<open>user_not_found\<close>; and the base scraper returns the empty list over an
  Instagram Meta strategy whose requests are all rate limited.
\<close>

theorem getRecentPosts_failures_witness:
  "TikTokWebStrategy_getRecentPosts blockedBrowser ''someone''
     = ([LogError ''TikTok: Rate limit exceeded'',
         LogError ''[Web Scraping] Failed to fetch TikTok posts for someone: Rate limit exceeded''],
        Inr [])
   \<and> snd (InstagramRapidApiStrategy_getRecentPosts 1 (failing (httpError 404 ''Not found''))
          (\<lambda>(r :: unit) u. []) ''someone'') = Inr []
   \<and> snd (BaseScraper_getRecentPosts ''Instagram''
        (Some (strategyOutcome
           (InstagramMetaStrategy_getRecentPosts (failing (metaError 4 ''limit'')) ''someone'')))
        ''someone'') = Inr []
   \<and> ei_error (snd (ScrapingStrategy_handleError ''Instagram'' (httpError 404 ''Not found'') ''someone''))
        = ''user_not_found''"
proof -
  let ?limit = "Error ''Instagram Meta API request failed after 3 attempts. Error: limit''"
  let ?meta = "InstagramMetaStrategy_getRecentPosts (failing (metaError 4 ''limit'')) ''someone''"
  have ts: "throwingStep blockedBrowser = Some (httpError 429 ''Too many requests'')"
    by (simp add: throwingStep_def blockedBrowser_def)
  have rq: "snd (RapidApi_makeRequest 1 (failing (httpError 404 ''Not found'') :: nat \<Rightarrow> exn + unit) 1)
      = Inl (httpError 404 ''Not found'')"
    using rapid_all_fail[of 1 1 "failing (httpError 404 ''Not found'') :: nat \<Rightarrow> exn + unit"
        "\<lambda>k. httpError 404 ''Not found''"]
    by (simp add: failing_def)
  have mq: "snd (Meta_makeRequest ''Instagram''
      (failing (metaError 4 ''limit'') :: nat \<Rightarrow> exn + jsobj list option) 1) = Inl ?limit"
    by (rule meta_rate_limited_thrice)
  have st404: "strictEq (responseStatus (httpError 404 ''Not found'')) (JNum (Fin 404))"
    by (simp add: httpError_def strictEq_def Error_def)
  have all: "TikTokWebStrategy_getRecentPosts blockedBrowser ''someone'' =
          ([fst (WebScraperStrategy_handleError ''TikTok'' (httpError 429 ''Too many requests'') ''someone''),
            LogError (''[Web Scraping] Failed to fetch TikTok posts for '' @ ''someone'' @ '': ''
                      @ ei_message (snd (WebScraperStrategy_handleError ''TikTok''
                          (httpError 429 ''Too many requests'') ''someone'')))],
           Inr [])
     \<and> snd (InstagramRapidApiStrategy_getRecentPosts 1 (failing (httpError 404 ''Not found''))
          (\<lambda>(r :: unit) u. []) ''someone'') = Inr []
     \<and> ?meta = ([LogError (''Instagram Meta API scraping failed: '' @ message ?limit)], Inl ?limit)
     \<and> ei_error (snd (ScrapingStrategy_handleError ''Instagram'' (httpError 404 ''Not found'') ''someone''))
        = ''user_not_found''"
    using getRecentPosts_failures[of blockedBrowser "''someone''" "httpError 429 ''Too many requests''"
        1 "failing (httpError 404 ''Not found'') :: nat \<Rightarrow> exn + unit" "\<lambda>r u. []"
        "httpError 404 ''Not found''"
        "failing (metaError 4 ''limit'') :: nat \<Rightarrow> exn + jsobj list option" ?limit "''Instagram''"
        "strategyOutcome ?meta" ?limit "httpError 404 ''Not found''"]
      ts rq mq st404
    by simp
  then have so: "s_initialize (strategyOutcome ?meta) = None"
    "s_getRecentPosts (strategyOutcome ?meta) = Inl ?limit"
    by (simp_all add: strategyOutcome_def)
  have base: "snd (BaseScraper_getRecentPosts ''Instagram'' (Some (strategyOutcome ?meta)) ''someone'')
      = Inr []"
    using getRecentPosts_failures[of blockedBrowser "''someone''" "httpError 429 ''Too many requests''"
        1 "failing (httpError 404 ''Not found'') :: nat \<Rightarrow> exn + unit" "\<lambda>r u. []"
        "httpError 404 ''Not found''"
        "failing (metaError 4 ''limit'') :: nat \<Rightarrow> exn + jsobj list option" ?limit "''Instagram''"
        "strategyOutcome ?meta" ?limit "httpError 404 ''Not found''"]
      so
    by simp
  have tk: "WebScraperStrategy_handleError ''TikTok'' (httpError 429 ''Too many requests'') ''someone''
      = (LogError ''TikTok: Rate limit exceeded'',
         \<lparr>ei_error = ''rate_limit'', ei_message = ''Rate limit exceeded''\<rparr>)"
    by (simp add: WebScraperStrategy_handleError_def ScrapingStrategy_handleError_def httpError_def
          Error_def strictEq_def startsWith_def Let_def)
  show ?thesis using all base by (simp add: tk)
qed

text \<open>
  C6 as stated fails: when every request is rate limited (Meta code 4),
  \<^verbatim>\<open>InstagramMetaStrategy.getRecentPosts\<close> does not return the empty list, it throws
  the error of the third attempt.
\<close>

theorem metaStrategy_throws_when_rate_limited:
  "snd (InstagramMetaStrategy_getRecentPosts (failing (metaError 4 ''limit'')) ''someone'')
     = Inl (Error ''Instagram Meta API request failed after 3 attempts. Error: limit'')"
  using meta_rate_limited_thrice[where 'r = "jsobj list option"]
  by (simp add: InstagramMetaStrategy_getRecentPosts_def)

section \<open>extractNumber\<close>



















end
